theory Spec2Isabelle
  imports Complex_Main "HOL-Library.AList"
begin

section \<open>Pairs trading engine: data model\<close>

text \<open>
  The engine of \<^verbatim>\<open>main.py\<close> (class \<^verbatim>\<open>PairsTrading\<close>), the pair evaluator of
  \<^verbatim>\<open>pair.py\<close> (class \<^verbatim>\<open>Pairs\<close>) and the open position of \<^verbatim>\<open>trading_pair.py\<close>
  (class \<^verbatim>\<open>TradingPair\<close>) are embedded as functions on an explicit engine state.
  Python floats are read as real numbers, and rounding is outside this model. The one
  float that the selection compares and that may be NaN is the correlation of a pair: it
  is a \<open>real option\<close>, \<open>None\<close> being NaN.
  Objects are referred to by identity: a \<^verbatim>\<open>Pairs\<close> object by its address \<open>pid\<close> in a
  store, a \<^verbatim>\<open>SymbolData\<close> object by the symbol that keys it in \<^verbatim>\<open>_symbol_data\<close>.
  The class \<^verbatim>\<open>SymbolData\<close>, the order gateway and the statistics libraries are
  not part of the sources; they are parameters of the model (record \<open>env\<close>).
\<close>

type_synonym symbol = string
type_synonym pid = nat

datatype error =
    UnboundLocalError   \<comment> \<open>the loop variable \<^verbatim>\<open>symbol\<close> read before any assignment\<close>
  | AttributeError      \<comment> \<open>\<^verbatim>\<open>pair.model.params\<close> on \<^verbatim>\<open>None\<close>, or \<^verbatim>\<open>stationary_p\<close> never set\<close>
  | ZeroDivisionError   \<comment> \<open>the division by \<^verbatim>\<open>self._pair_num\<close>\<close>
  | LibraryError        \<comment> \<open>an exception raised by a statistics routine\<close>

text \<open>The fitted regression \<^verbatim>\<open>self.model\<close>: \<^verbatim>\<open>params[0]\<close>, \<^verbatim>\<open>params[1]\<close> and \<^verbatim>\<open>resid\<close>.\<close>

record ols_result =
  params_0 :: real
  params_1 :: real
  resid :: "real list"

text \<open>
  A \<^verbatim>\<open>Pairs\<close> object. \<^verbatim>\<open>__init__\<close> sets \<^verbatim>\<open>model = None\<close>, \<^verbatim>\<open>mean_error = 0\<close>,
  \<^verbatim>\<open>epsilon = 0\<close> and does not create the attribute \<^verbatim>\<open>stationary_p\<close>.
\<close>

record pairs =
  a_symbol :: symbol
  b_symbol :: symbol
  model :: "ols_result option"
  stationary_p :: "real option"
  mean_error :: real
  epsilon :: real

definition Pairs :: "symbol \<Rightarrow> symbol \<Rightarrow> pairs" where
  "Pairs sa sb =
     \<lparr>a_symbol = sa, b_symbol = sb, model = None, stationary_p = None,
      mean_error = 0, epsilon = 0\<rparr>"

definition name :: "pairs \<Rightarrow> string" where
  "name p = a_symbol p @ '':'' @ b_symbol p"

text \<open>An order ticket; \<^verbatim>\<open>quantity\<close> is the quantity the order was submitted with.\<close>

record ticket =
  ticket_symbol :: symbol
  quantity :: real

text \<open>A \<^verbatim>\<open>TradingPair\<close>: the two tickets and the snapshot passed to \<^verbatim>\<open>__init__\<close>.\<close>

record trading_pair =
  ticket_a :: ticket
  ticket_b :: ticket
  model_intercept :: real
  model_slope :: real
  tp_mean_error :: real
  tp_epsilon :: real

definition TradingPair ::
  "ticket \<Rightarrow> ticket \<Rightarrow> real \<Rightarrow> real \<Rightarrow> real \<Rightarrow> real \<Rightarrow> trading_pair" where
  "TradingPair ta tb intercept slope me eps =
     \<lparr>ticket_a = ta, ticket_b = tb, model_intercept = intercept, model_slope = slope,
      tp_mean_error = me, tp_epsilon = eps\<rparr>"

text \<open>What the engine sends to its collaborators, in the order it is sent.\<close>

datatype message =
    No_selected_pair
  | Close string
  | Long_and_short real symbol real symbol

datatype event =
    Market_order symbol real
  | Debug message

text \<open>The class attributes of \<^verbatim>\<open>PairsTrading\<close>.\<close>

record config =
  symbols :: "symbol list"
  pair_num :: nat
  leverage :: real
  min_corr_threshold :: real
  open_size :: real
  close_size :: real
  stop_loss_size :: real

definition PairsTrading_config :: config where
  "PairsTrading_config =
     \<lparr>symbols = [''ING'', ''TBC'', ''BMA'', ''PB'', ''FBC'', ''STL'', ''FCF'', ''PFS'', ''BOH'',
                 ''SCNB'', ''BK'', ''CMA'', ''AF'', ''PNC'', ''KB'', ''SHG'', ''BSAC'', ''CIB'',
                 ''BBD'', ''BSBR''],
      pair_num = 10, leverage = 1, min_corr_threshold = 0.9,
      open_size = 2.32, close_size = 0.5, stop_loss_size = 6\<rparr>"

text \<open>
  The engine state: \<^verbatim>\<open>_symbol_data\<close> (its keys in insertion order and the object under
  each key), the \<^verbatim>\<open>Pairs\<close> objects, \<^verbatim>\<open>_pair_list\<close>, \<^verbatim>\<open>_selected_pair\<close>, the dict
  \<^verbatim>\<open>_trading_pairs\<close> in insertion order, \<^verbatim>\<open>_regenerate_time\<close>, and the log of events.
\<close>

record 'sd algo =
  symbol_keys :: "symbol list"
  symbol_data :: "symbol \<Rightarrow> 'sd"
  pair_store :: "pid \<Rightarrow> pairs"
  pair_list :: "pid list"
  selected_pair :: "pid list"
  trading_pairs :: "(pid \<times> trading_pair) list"
  regenerate_time :: int
  events :: "event list"

text \<open>
  The collaborators. \<open>sd_update\<close> is \<^verbatim>\<open>SymbolData.update\<close>, \<open>prices_0_close\<close> reads
  \<^verbatim>\<open>prices[0].close\<close>, \<open>sd_data_frame\<close> and \<open>sd_series\<close> read the two histories of an
  instrument; \<open>corr\<close> is \<^verbatim>\<open>DataFrame.corr().iloc[0][1]\<close> (\<open>None\<close> when it is NaN),
  \<open>coint\<close> the p-value \<^verbatim>\<open>coint(...)[1]\<close>, \<open>ols\<close> is \<^verbatim>\<open>sm.ols(...).fit()\<close>, \<open>adfuller\<close>
  the p-value \<^verbatim>\<open>adfuller(...)[1]\<close>; a statistics routine may raise.
  \<open>calculate_order_quantity\<close> is the method of the framework, which reads the portfolio
  of the running algorithm. \<open>sort_nan\<close> is the order in which \<^verbatim>\<open>list.sort\<close> with
  \<^verbatim>\<open>reverse=True\<close> leaves a list when one of the keys is NaN: every comparison with
  NaN is false, and the order then depends on the comparisons that the sorting routine of
  the interpreter happens to make.
\<close>

record ('sd, 'bar) env =
  sd_update :: "'bar \<Rightarrow> 'sd \<Rightarrow> 'sd"
  prices_0_close :: "'sd \<Rightarrow> real"
  sd_data_frame :: "'sd \<Rightarrow> (nat \<times> real) list"
  sd_series :: "'sd \<Rightarrow> real list"
  corr :: "(real \<times> real) list \<Rightarrow> real option"
  coint :: "real list \<Rightarrow> real list \<Rightarrow> error + real"
  ols :: "(real \<times> real) list \<Rightarrow> error + ols_result"
  adfuller :: "real list \<Rightarrow> error + real"
  calculate_order_quantity :: "'sd algo \<Rightarrow> symbol \<Rightarrow> real \<Rightarrow> real"
  sort_nan :: "real option list \<Rightarrow> pid list \<Rightarrow> pid list"

text \<open>One market update: the clock \<^verbatim>\<open>self.time\<close> (in seconds) and \<^verbatim>\<open>data.bars\<close>.\<close>

record 'bar slice =
  time :: int
  bars :: "symbol \<rightharpoonup> 'bar"

section \<open>The trading state machine of \<^verbatim>\<open>on_data\<close>\<close>

definition debug :: "message \<Rightarrow> 'sd algo \<Rightarrow> 'sd algo" where
  "debug m s = s\<lparr>events := events s @ [Debug m]\<rparr>"

definition market_order :: "symbol \<Rightarrow> real \<Rightarrow> 'sd algo \<Rightarrow> ticket \<times> 'sd algo" where
  "market_order smb q s =
     (\<lparr>ticket_symbol = smb, quantity = q\<rparr>, s\<lparr>events := events s @ [Market_order smb q]\<rparr>)"

text \<open>
  The four statements shared by the three closing branches: two reversing orders, the
  \<^verbatim>\<open>pop\<close> and the debug line. The key popped is the key of the item of the copy that
  the loop is at, and only that iteration removes it from the dict, so the \<^verbatim>\<open>pop\<close> finds
  it.
\<close>

definition close_position :: "pid \<Rightarrow> trading_pair \<Rightarrow> 'sd algo \<Rightarrow> 'sd algo" where
  "close_position p tp s =
     (let pr = pair_store s p;
          s1 = snd (market_order (a_symbol pr) (- quantity (ticket_a tp)) s);
          s2 = snd (market_order (b_symbol pr) (- quantity (ticket_b tp)) s1);
          s3 = s2\<lparr>trading_pairs := AList.delete p (trading_pairs s2)\<rparr>
      in debug (Close (name pr)) s3)"

text \<open>The deviation of the current prices from a fitted line.\<close>

definition spread_error ::
  "('sd, 'bar) env \<Rightarrow> 'sd algo \<Rightarrow> pairs \<Rightarrow> real \<Rightarrow> real \<Rightarrow> real" where
  "spread_error E s pr intercept slope =
     prices_0_close E (symbol_data s (a_symbol pr))
       - (intercept + slope * prices_0_close E (symbol_data s (b_symbol pr)))"

text \<open>The body of the loop over \<^verbatim>\<open>self._trading_pairs.copy().items()\<close>.\<close>

definition close_step ::
  "config \<Rightarrow> ('sd, 'bar) env \<Rightarrow> pid \<times> trading_pair \<Rightarrow> 'sd algo \<Rightarrow> 'sd algo" where
  "close_step C E ptp s =
     (let p = fst ptp; tp = snd ptp in
      if p \<notin> set (selected_pair s) then close_position p tp s
      else
        let err = spread_error E s (pair_store s p) (model_intercept tp) (model_slope tp) in
        if quantity (ticket_a tp) > 0 \<and>
           (err > tp_mean_error tp - close_size C * tp_epsilon tp \<or>
            err < tp_mean_error tp - stop_loss_size C * tp_epsilon tp)
        then close_position p tp s
        else if quantity (ticket_a tp) < 0 \<and>
           (err < tp_mean_error tp + close_size C * tp_epsilon tp \<or>
            err > tp_mean_error tp + stop_loss_size C * tp_epsilon tp)
        then close_position p tp s
        else s)"

definition close_loop ::
  "config \<Rightarrow> ('sd, 'bar) env \<Rightarrow> (pid \<times> trading_pair) list \<Rightarrow> 'sd algo \<Rightarrow> 'sd algo" where
  "close_loop C E items s = fold (close_step C E) items s"

text \<open>
  The arguments of the first call of \<^verbatim>\<open>calculate_order_quantity\<close> in an entry branch,
  evaluated from left to right: the variable \<^verbatim>\<open>symbol\<close>, which the loop over
  \<^verbatim>\<open>_symbol_data\<close> at the top of \<^verbatim>\<open>on_data\<close> left behind (\<open>smb\<close>; unbound when that
  loop had nothing to run over), and the target \<^verbatim>\<open>self._leverage/self._pair_num / 2\<close>.
\<close>

definition entry_arguments :: "config \<Rightarrow> symbol option \<Rightarrow> error + symbol \<times> real" where
  "entry_arguments C smb =
     (case smb of
        None \<Rightarrow> Inl UnboundLocalError
      | Some symbol \<Rightarrow>
          if pair_num C = 0 then Inl ZeroDivisionError
          else Inr (symbol, leverage C / real (pair_num C) / 2))"

text \<open>
  The statements shared by the two entry branches; \<open>ta\<close> and \<open>tb\<close> are the targets handed
  to \<^verbatim>\<open>calculate_order_quantity\<close> for leg A and leg B.
\<close>

definition open_position ::
  "('sd, 'bar) env \<Rightarrow> symbol \<Rightarrow> pid \<Rightarrow> ols_result \<Rightarrow> real \<Rightarrow> real \<Rightarrow> bool \<Rightarrow>
   'sd algo \<Rightarrow> 'sd algo" where
  "open_position E symbol p m ta tb long s =
     (let pr = pair_store s p;
          qty_a = calculate_order_quantity E s symbol ta;
          qty_b = calculate_order_quantity E s symbol tb;
          (ticket_a, s1) = market_order (a_symbol pr) qty_a s;
          (ticket_b, s2) = market_order (b_symbol pr) qty_b s1;
          s3 = s2\<lparr>trading_pairs :=
                   AList.update p
                     (TradingPair ticket_a ticket_b (params_0 m) (params_1 m)
                        (mean_error pr) (epsilon pr))
                     (trading_pairs s2)\<rparr>
      in debug (if long then Long_and_short qty_a (a_symbol pr) qty_b (b_symbol pr)
                else Long_and_short qty_b (b_symbol pr) qty_a (a_symbol pr)) s3)"

text \<open>The body of the loop over \<^verbatim>\<open>self._selected_pair\<close>.\<close>

definition entry_step ::
  "config \<Rightarrow> ('sd, 'bar) env \<Rightarrow> symbol option \<Rightarrow> pid \<Rightarrow> 'sd algo \<Rightarrow> error + 'sd algo" where
  "entry_step C E smb p s =
     (let pr = pair_store s p in
      case model pr of
        None \<Rightarrow> Inl AttributeError
      | Some m \<Rightarrow>
          let err = spread_error E s pr (params_0 m) (params_1 m) in
          if p \<notin> fst ` set (trading_pairs s) then
            if err < mean_error pr - open_size C * epsilon pr then
              (case entry_arguments C smb of
                 Inl e \<Rightarrow> Inl e
               | Inr (symbol, target) \<Rightarrow>
                   Inr (open_position E symbol p m target (- target) True s))
            else if err > mean_error pr + open_size C * epsilon pr then
              (case entry_arguments C smb of
                 Inl e \<Rightarrow> Inl e
               | Inr (symbol, target) \<Rightarrow>
                   Inr (open_position E symbol p m (- target) target False s))
            else Inr s
          else Inr s)"

fun entry_loop ::
  "config \<Rightarrow> ('sd, 'bar) env \<Rightarrow> symbol option \<Rightarrow> pid list \<Rightarrow> 'sd algo \<Rightarrow> error + 'sd algo" where
  "entry_loop C E smb [] s = Inr s"
| "entry_loop C E smb (p # ps) s =
     (case entry_step C E smb p s of
        Inl e \<Rightarrow> Inl e
      | Inr s' \<Rightarrow> entry_loop C E smb ps s')"

section \<open>The pair evaluator of \<^verbatim>\<open>pair.py\<close>\<close>

text \<open>
  \<^verbatim>\<open>pd.concat([...], axis=1)\<close> aligns the two time-indexed columns on the union of
  their indexes, a missing cell being empty; \<^verbatim>\<open>dropna()\<close> keeps the rows where both
  cells are present. The time stamps of a column are taken to be distinct.
\<close>

definition concat_axis_1 ::
  "(nat \<times> real) list \<Rightarrow> (nat \<times> real) list \<Rightarrow> (real option \<times> real option) list" where
  "concat_axis_1 fa fb =
     map (\<lambda>t. (map_of fa t, map_of fb t)) (sorted_list_of_set (fst ` set fa \<union> fst ` set fb))"

definition dropna :: "(real option \<times> real option) list \<Rightarrow> (real \<times> real) list" where
  "dropna rows =
     List.map_filter
       (\<lambda>row. case row of (Some x, Some y) \<Rightarrow> Some (x, y) | _ \<Rightarrow> None) rows"

definition data_frame :: "(nat \<times> real) list \<Rightarrow> (nat \<times> real) list \<Rightarrow> (real \<times> real) list" where
  "data_frame fa fb = dropna (concat_axis_1 fa fb)"

definition pair_data_frame :: "('sd, 'bar) env \<Rightarrow> 'sd algo \<Rightarrow> pairs \<Rightarrow> (real \<times> real) list" where
  "pair_data_frame E s pr =
     data_frame (sd_data_frame E (symbol_data s (a_symbol pr)))
                 (sd_data_frame E (symbol_data s (b_symbol pr)))"

definition correlation :: "('sd, 'bar) env \<Rightarrow> 'sd algo \<Rightarrow> pairs \<Rightarrow> real option" where
  "correlation E s pr = corr E (pair_data_frame E s pr)"

text \<open>The comparison \<^verbatim>\<open>x < t\<close> of a float that may be NaN with a number.\<close>

definition float_lt :: "real option \<Rightarrow> real \<Rightarrow> bool" where
  "float_lt x t = (case x of None \<Rightarrow> False | Some r \<Rightarrow> r < t)"

text \<open>
  \<^verbatim>\<open>np.mean\<close> and \<^verbatim>\<open>np.std\<close> (population standard deviation). On an empty array numpy
  gives NaN; the regression never returns an empty residual vector.
\<close>

definition np_mean :: "real list \<Rightarrow> real" where
  "np_mean xs = sum_list xs / real (length xs)"

definition np_std :: "real list \<Rightarrow> real" where
  "np_std xs = sqrt (np_mean (map (\<lambda>x. (x - np_mean xs)\<^sup>2) xs))"

text \<open>
  \<^verbatim>\<open>cointegration_test\<close> returns its result, or the exception that a library routine
  raised, together with the object as the call leaves it: an assignment made before an
  exception stays made.
\<close>

definition cointegration_test ::
  "('sd, 'bar) env \<Rightarrow> 'sd algo \<Rightarrow> pairs \<Rightarrow> (error + bool) \<times> pairs" where
  "cointegration_test E s pr =
     (case coint E (sd_series E (symbol_data s (a_symbol pr)))
                   (sd_series E (symbol_data s (b_symbol pr))) of
        Inl e \<Rightarrow> (Inl e, pr)
      | Inr coint_p \<Rightarrow>
          if coint_p \<ge> 0.05 then (Inr False, pr)
          else
            (case ols E (pair_data_frame E s pr) of
               Inl e \<Rightarrow> (Inl e, pr)
             | Inr m \<Rightarrow>
                 let pr1 = pr\<lparr>model := Some m\<rparr> in
                 (case adfuller E (resid m) of
                    Inl e \<Rightarrow> (Inl e, pr1)
                  | Inr sp \<Rightarrow>
                      (Inr True,
                       pr1\<lparr>stationary_p := Some sp,
                           mean_error := np_mean (resid m),
                           epsilon := np_std (resid m)\<rparr>))))"

section \<open>The pair selector \<^verbatim>\<open>_generate_pairs\<close>\<close>

text \<open>The loop over \<^verbatim>\<open>self._pair_list\<close>; \<open>sel\<close> is the local \<^verbatim>\<open>selected_pair\<close>.\<close>

fun select_loop ::
  "config \<Rightarrow> ('sd, 'bar) env \<Rightarrow> pid list \<Rightarrow> pid list \<Rightarrow> 'sd algo \<Rightarrow>
   error + (pid list \<times> 'sd algo)" where
  "select_loop C E [] sel s = Inr (sel, s)"
| "select_loop C E (p # ps) sel s =
     (if float_lt (correlation E s (pair_store s p)) (min_corr_threshold C)
      then select_loop C E ps sel s
      else
        (case cointegration_test E s (pair_store s p) of
           (Inl e, pr) \<Rightarrow> Inl e
         | (Inr coint_ok, pr) \<Rightarrow>
             let s' = s\<lparr>pair_store := (pair_store s)(p := pr)\<rparr> in
             if coint_ok then
               (case stationary_p pr of
                  None \<Rightarrow> Inl AttributeError
                | Some sp \<Rightarrow>
                    if sp < 0.05 then select_loop C E ps (sel @ [p]) s'
                    else select_loop C E ps sel s')
             else select_loop C E ps sel s'))"

text \<open>
  \<^verbatim>\<open>list.sort(key=...)\<close> computes every key first and then sorts stably;
  \<^verbatim>\<open>reverse=True\<close> keeps the order of equal keys, as sorting by the negated key does.
  When a key is NaN the result is the rearrangement \<open>sort_nan\<close>.
\<close>

definition sort_by_correlation ::
  "('sd, 'bar) env \<Rightarrow> 'sd algo \<Rightarrow> pid list \<Rightarrow> pid list" where
  "sort_by_correlation E s sel =
     (let ks = map (\<lambda>p. correlation E s (pair_store s p)) sel in
      if None \<in> set ks then sort_nan E ks sel
      else sort_key (\<lambda>p. - the (correlation E s (pair_store s p))) sel)"

definition sort_by_stationary_p :: "'sd algo \<Rightarrow> pid list \<Rightarrow> error + pid list" where
  "sort_by_stationary_p s sel =
     (case those (map (\<lambda>p. stationary_p (pair_store s p)) sel) of
        None \<Rightarrow> Inl AttributeError
      | Some ks \<Rightarrow> Inr (map snd (sort_key fst (zip ks sel))))"

definition generate_pairs ::
  "config \<Rightarrow> ('sd, 'bar) env \<Rightarrow> 'sd algo \<Rightarrow> error + (pid list \<times> 'sd algo)" where
  "generate_pairs C E s =
     (case select_loop C E (pair_list s) [] s of
        Inl e \<Rightarrow> Inl e
      | Inr (sel, s1) \<Rightarrow>
          if length sel = 0 then Inr ([], debug No_selected_pair s1)
          else
            let sel1 = sort_by_correlation E s1 sel;
                sel2 = (if length sel1 > pair_num C then take (pair_num C) sel1 else sel1)
            in (case sort_by_stationary_p s1 sel2 of
                  Inl e \<Rightarrow> Inl e
                | Inr sel3 \<Rightarrow> Inr (sel3, s1)))"

section \<open>\<^verbatim>\<open>on_data\<close> and runs of the engine\<close>

definition update_step :: "('sd, 'bar) env \<Rightarrow> 'bar slice \<Rightarrow> symbol \<Rightarrow> 'sd algo \<Rightarrow> 'sd algo" where
  "update_step E d k s =
     (case bars d k of
        None \<Rightarrow> s
      | Some bar \<Rightarrow> s\<lparr>symbol_data := (symbol_data s)(k := sd_update E bar (symbol_data s k))\<rparr>)"

text \<open>The value of the loop variable \<^verbatim>\<open>symbol\<close> once the first loop has ended.\<close>

definition loop_symbol :: "symbol list \<Rightarrow> symbol option" where
  "loop_symbol ks = (if ks = [] then None else Some (last ks))"

definition timedelta_days :: "int \<Rightarrow> int" where
  "timedelta_days n = n * 86400"

definition regenerate ::
  "config \<Rightarrow> ('sd, 'bar) env \<Rightarrow> 'bar slice \<Rightarrow> 'sd algo \<Rightarrow> error + 'sd algo" where
  "regenerate C E d s =
     (if regenerate_time s < time d then
        (case generate_pairs C E s of
           Inl e \<Rightarrow> Inl e
         | Inr (sel, s1) \<Rightarrow>
             Inr (s1\<lparr>selected_pair := sel, regenerate_time := time d + timedelta_days 5\<rparr>))
      else Inr s)"

definition trade ::
  "config \<Rightarrow> ('sd, 'bar) env \<Rightarrow> symbol option \<Rightarrow> 'sd algo \<Rightarrow> error + 'sd algo" where
  "trade C E smb s = entry_loop C E smb (selected_pair s) (close_loop C E (trading_pairs s) s)"

definition on_data ::
  "config \<Rightarrow> ('sd, 'bar) env \<Rightarrow> 'bar slice \<Rightarrow> 'sd algo \<Rightarrow> error + 'sd algo" where
  "on_data C E d s =
     (let s1 = fold (update_step E d) (symbol_keys s) s;
          smb = loop_symbol (symbol_keys s)
      in case regenerate C E d s1 of
           Inl e \<Rightarrow> Inl e
         | Inr s2 \<Rightarrow> trade C E smb s2)"

text \<open>A run: the updates arrive one after the other; an exception ends the run.\<close>

fun run ::
  "config \<Rightarrow> ('sd, 'bar) env \<Rightarrow> 'sd algo \<Rightarrow> 'bar slice list \<Rightarrow> error + 'sd algo" where
  "run C E s [] = Inr s"
| "run C E s (d # ds) =
     (case on_data C E d s of
        Inl e \<Rightarrow> Inl e
      | Inr s' \<Rightarrow> run C E s' ds)"

text \<open>
  \<^verbatim>\<open>initialize\<close>: one \<^verbatim>\<open>SymbolData\<close> per ticker (\<open>mk\<close> is its constructor), one
  \<^verbatim>\<open>Pairs\<close> object per combination of two ready instruments, nothing selected and no
  position; \<^verbatim>\<open>datetime.min\<close> is time 0.
\<close>

fun combinations_2 :: "'a list \<Rightarrow> ('a \<times> 'a) list" where
  "combinations_2 [] = []"
| "combinations_2 (x # xs) = map (Pair x) xs @ combinations_2 xs"

definition dict_keys :: "symbol list \<Rightarrow> symbol list" where
  "dict_keys ts = rev (remdups (rev ts))"

definition initialize ::
  "config \<Rightarrow> (symbol \<Rightarrow> 'sd) \<Rightarrow> ('sd \<Rightarrow> bool) \<Rightarrow> 'sd algo" where
  "initialize C mk is_ready =
     (let ks = dict_keys (symbols C);
          prs = filter (\<lambda>(x, y). is_ready (mk x) \<and> is_ready (mk y)) (combinations_2 ks)
      in \<lparr>symbol_keys = ks,
          symbol_data = mk,
          pair_store = (\<lambda>i. if i < length prs then Pairs (fst (prs ! i)) (snd (prs ! i))
                             else Pairs [] []),
          pair_list = [0..<length prs],
          selected_pair = [],
          trading_pairs = [],
          regenerate_time = 0,
          events = []\<rparr>)"

text \<open>The Pearson coefficient that \<^verbatim>\<open>DataFrame.corr()\<close> computes; \<open>None\<close> is NaN.\<close>

definition pearson :: "(real \<times> real) list \<Rightarrow> real option" where
  "pearson rows =
     (let xs = map fst rows; ys = map snd rows;
          mx = np_mean xs; my = np_mean ys;
          sxy = sum_list (map (\<lambda>(x, y). (x - mx) * (y - my)) rows);
          sxx = sum_list (map (\<lambda>x. (x - mx)\<^sup>2) xs);
          syy = sum_list (map (\<lambda>y. (y - my)\<^sup>2) ys)
      in if sxx * syy = 0 then None else Some (sxy / sqrt (sxx * syy)))"

section \<open>Derived notions and a small instance\<close>

text \<open>The disjunction of the guards of the three closing branches of \<^verbatim>\<open>on_data\<close>.\<close>

definition closes :: "config \<Rightarrow> ('sd, 'bar) env \<Rightarrow> 'sd algo \<Rightarrow> pid \<times> trading_pair \<Rightarrow> bool" where
  "closes C E s ptp =
     (let p = fst ptp; tp = snd ptp;
          err = spread_error E s (pair_store s p) (model_intercept tp) (model_slope tp)
      in p \<notin> set (selected_pair s)
         \<or> quantity (ticket_a tp) > 0 \<and>
             (err > tp_mean_error tp - close_size C * tp_epsilon tp \<or>
              err < tp_mean_error tp - stop_loss_size C * tp_epsilon tp)
         \<or> quantity (ticket_a tp) < 0 \<and>
             (err < tp_mean_error tp + close_size C * tp_epsilon tp \<or>
              err > tp_mean_error tp + stop_loss_size C * tp_epsilon tp))"

text \<open>
  The disjunction of the guards of the two entry branches, for a fitted pair: the error of
  the current prices against the live model lies outside the entry band.
\<close>

definition entry_signal :: "config \<Rightarrow> ('sd, 'bar) env \<Rightarrow> 'sd algo \<Rightarrow> pid \<Rightarrow> bool" where
  "entry_signal C E s p =
     (let pr = pair_store s p in
      case model pr of
        None \<Rightarrow> False
      | Some m \<Rightarrow>
          let err = spread_error E s pr (params_0 m) (params_1 m)
          in err < mean_error pr - open_size C * epsilon pr \<or>
             err > mean_error pr + open_size C * epsilon pr)"

text \<open>What a closing branch sends for the position \<open>tp\<close> of the pair at \<open>p\<close>.\<close>

definition closing_events :: "'sd algo \<Rightarrow> pid \<times> trading_pair \<Rightarrow> event list" where
  "closing_events s ptp =
     [Market_order (a_symbol (pair_store s (fst ptp))) (- quantity (ticket_a (snd ptp))),
      Market_order (b_symbol (pair_store s (fst ptp))) (- quantity (ticket_b (snd ptp))),
      Debug (Close (name (pair_store s (fst ptp))))]"

text \<open>The events that an update has added to the log of \<open>s\<close> when it ends in \<open>s'\<close>.\<close>

definition new_events :: "'sd algo \<Rightarrow> 'sd algo \<Rightarrow> event list" where
  "new_events s s' = drop (length (events s)) (events s')"

text \<open>
  The tests that the loop body of \<^verbatim>\<open>_generate_pairs\<close> applies to one candidate: the
  correlation is not below the threshold, \<^verbatim>\<open>cointegration_test\<close> returns \<^verbatim>\<open>True\<close>, and
  the \<^verbatim>\<open>stationary_p\<close> it has set is below 0.05.
\<close>

definition survives :: "config \<Rightarrow> ('sd, 'bar) env \<Rightarrow> 'sd algo \<Rightarrow> pid \<Rightarrow> bool" where
  "survives C E s p =
     (\<not> float_lt (correlation E s (pair_store s p)) (min_corr_threshold C) \<and>
      fst (cointegration_test E s (pair_store s p)) = Inr True \<and>
      (case stationary_p (snd (cointegration_test E s (pair_store s p))) of
         None \<Rightarrow> False
       | Some sp \<Rightarrow> sp < 0.05))"

text \<open>The comparison \<^verbatim>\<open>x >= t\<close> of a float that may be NaN with a number.\<close>

definition float_ge :: "real option \<Rightarrow> real \<Rightarrow> bool" where
  "float_ge x t = (case x of None \<Rightarrow> False | Some r \<Rightarrow> r \<ge> t)"


text \<open>
  Two states with the same instrument data and the same two instruments under every pair
  address: what a selection cycle leaves unchanged.
\<close>

definition same_data :: "'sd algo \<Rightarrow> 'sd algo \<Rightarrow> bool" where
  "same_data s1 s2 =
     (symbol_data s1 = symbol_data s2 \<and>
      (\<forall>p. a_symbol (pair_store s1 p) = a_symbol (pair_store s2 p) \<and>
           b_symbol (pair_store s1 p) = b_symbol (pair_store s2 p)))"

text \<open>
  A two-instrument instance with constant statistics, for evaluating the engine: the
  fitted line is \<open>A = 0 + 1 * B\<close> with residuals \<open>[-1, 1]\<close>, so that
  \<^verbatim>\<open>mean_error = 0\<close> and \<^verbatim>\<open>epsilon = 1\<close>; a \<^verbatim>\<open>SymbolData\<close> is its last close, and the
  order quantity for a target is \<open>10000 * target\<close> divided by the price of the
  instrument that \<^verbatim>\<open>calculate_order_quantity\<close> is asked about.
\<close>

definition example_env :: "(real, real) env" where
  "example_env =
     \<lparr>sd_update = (\<lambda>bar sd. bar), prices_0_close = (\<lambda>sd. sd),
      sd_data_frame = (\<lambda>sd. []), sd_series = (\<lambda>sd. []),
      corr = (\<lambda>rows. Some 1), coint = (\<lambda>xs ys. Inr 0.01),
      ols = (\<lambda>rows. Inr \<lparr>params_0 = 0, params_1 = 1, resid = [-1, 1]\<rparr>),
      adfuller = (\<lambda>xs. Inr 0.01),
      calculate_order_quantity = (\<lambda>s smb t. 10000 * t / symbol_data s smb),
      sort_nan = (\<lambda>ks sel. sel)\<rparr>"

definition example_config :: config where
  "example_config = PairsTrading_config\<lparr>symbols := [''A'', ''B'']\<rparr>"

definition example_initial :: "real algo" where
  "example_initial = initialize example_config (\<lambda>k. 10) (\<lambda>sd. True)"

text \<open>An update at time \<open>t\<close> that puts A at \<open>10 + e\<close> and B at 10: the error is \<open>e\<close>.\<close>

definition example_bars :: "int \<Rightarrow> real \<Rightarrow> real slice" where
  "example_bars t e = \<lparr>time = t, bars = [''A'' \<mapsto> 10 + e, ''B'' \<mapsto> 10]\<rparr>"

definition example_pair :: pairs where
  "example_pair =
     \<lparr>a_symbol = ''A'', b_symbol = ''B'',
      model = Some \<lparr>params_0 = 0, params_1 = 1, resid = [-1, 1]\<rparr>,
      stationary_p = Some 0.01, mean_error = 0, epsilon = 1\<rparr>"

definition example_position :: "real \<Rightarrow> trading_pair" where
  "example_position q =
     TradingPair \<lparr>ticket_symbol = ''A'', quantity = q\<rparr> \<lparr>ticket_symbol = ''B'', quantity = - q\<rparr>
       0 1 0 1"

text \<open>
  A state between two selection cycles: the pair \<open>pr\<close> is selected, A stands at
  \<open>10 + e\<close>, B at 10, and \<open>tps\<close> are the open positions.
\<close>

definition example_state :: "pairs \<Rightarrow> real \<Rightarrow> (pid \<times> trading_pair) list \<Rightarrow> real algo" where
  "example_state pr e tps =
     \<lparr>symbol_keys = [''A'', ''B''],
      symbol_data = (\<lambda>k. 10)(''A'' := 10 + e),
      pair_store = (\<lambda>i. pr),
      pair_list = [0],
      selected_pair = [0],
      trading_pairs = tps,
      regenerate_time = 432001,
      events = []\<rparr>"

text \<open>The same state with the pair holding a position \<open>tp\<close> and dropped from the selection.\<close>

definition example_deselected :: "trading_pair \<Rightarrow> real algo" where
  "example_deselected tp = (example_state example_pair 0 [(0, tp)])\<lparr>selected_pair := []\<rparr>"

text \<open>What a run shows to the outside: the event log and the open positions.\<close>

definition outcome :: "error + 'sd algo \<Rightarrow> error + event list \<times> (pid \<times> trading_pair) list" where
  "outcome r = map_sum id (\<lambda>s. (events s, trading_pairs s)) r"

text \<open>
  A three-instrument instance with the same statistics: the pairs are (A, B), (A, C) and
  (B, C) at the addresses 0, 1 and 2. Here \<^verbatim>\<open>calculate_order_quantity\<close> gives the order
  that brings the holding of the instrument it is asked about to the target: the quantity
  for the target, less the holding, which is the sum of the quantities ordered so far.
\<close>

fun holding :: "event list \<Rightarrow> symbol \<Rightarrow> real" where
  "holding [] y = 0"
| "holding (Market_order x q # es) y = (if x = y then q else 0) + holding es y"
| "holding (Debug m # es) y = holding es y"

definition portfolio_env :: "(real, real) env" where
  "portfolio_env =
     example_env\<lparr>calculate_order_quantity :=
       (\<lambda>s smb t. 10000 * t / symbol_data s smb - holding (events s) smb)\<rparr>"

definition three_config :: config where
  "three_config = PairsTrading_config\<lparr>symbols := [''A'', ''B'', ''C'']\<rparr>"

definition three_initial :: "real algo" where
  "three_initial = initialize three_config (\<lambda>k. 10) (\<lambda>sd. True)"

definition three_bars :: "int \<Rightarrow> real \<Rightarrow> real \<Rightarrow> real \<Rightarrow> real slice" where
  "three_bars t a b c = \<lparr>time = t, bars = [''A'' \<mapsto> a, ''B'' \<mapsto> b, ''C'' \<mapsto> c]\<rparr>"

text \<open>
  An instance in which the three pairs differ in correlation and the cap is 2: the
  history of an instrument is the one row of its value, A, B and C stand at 1, 2 and 3, and
  the correlation of a one-row frame \<open>(x, y)\<close> is taken to be \<open>x * y / 10\<close>, which is 0.2
  for (A, B), 0.3 for (A, C) and 0.6 for (B, C).
\<close>

definition ranked_env :: "(real, real) env" where
  "ranked_env =
     example_env\<lparr>sd_data_frame := (\<lambda>sd. [(0, sd)]),
                 corr := (\<lambda>rows. case rows of [(x, y)] \<Rightarrow> Some (x * y / 10) | _ \<Rightarrow> None)\<rparr>"

definition ranked_config :: config where
  "ranked_config = three_config\<lparr>pair_num := 2, min_corr_threshold := 0.1\<rparr>"

definition ranked_initial :: "real algo" where
  "ranked_initial =
     initialize ranked_config (\<lambda>k. if k = ''A'' then 1 else if k = ''B'' then 2 else 3)
       (\<lambda>sd. True)"

section \<open>Properties\<close>

lemma close_step_closes:
  "close_step C E ptp s = (if closes C E s ptp then close_position (fst ptp) (snd ptp) s else s)"
  by (auto simp add: close_step_def closes_def Let_def)






lemmas ex_defs = example_env_def example_config_def example_pair_def example_position_def
  example_state_def PairsTrading_config_def TradingPair_def

lemmas run_defs = example_initial_def example_bars_def initialize_def dict_keys_def
  Pairs_def on_data_def update_step_def loop_symbol_def regenerate_def generate_pairs_def
  correlation_def float_lt_def cointegration_test_def np_std_def np_mean_def sort_by_correlation_def
  sort_by_stationary_p_def trade_def close_loop_def close_step_def entry_step_def
  entry_arguments_def open_position_def close_position_def market_order_def debug_def
  spread_error_def
  timedelta_days_def name_def pair_data_frame_def outcome_def Let_def

subsection \<open>Entry step\<close>

lemma update_absent: "k \<notin> fst ` set al \<Longrightarrow> AList.update k v al = al @ [(k, v)]"
  by (induction al) auto

lemma open_position_effect:
  "open_position E y p m ta tb long s =
     s\<lparr>trading_pairs :=
         AList.update p
           (TradingPair
              \<lparr>ticket_symbol = a_symbol (pair_store s p),
                 quantity = calculate_order_quantity E s y ta\<rparr>
              \<lparr>ticket_symbol = b_symbol (pair_store s p),
                 quantity = calculate_order_quantity E s y tb\<rparr>
              (params_0 m) (params_1 m)
              (mean_error (pair_store s p)) (epsilon (pair_store s p)))
           (trading_pairs s),
       events := events s @
         [Market_order (a_symbol (pair_store s p)) (calculate_order_quantity E s y ta),
          Market_order (b_symbol (pair_store s p)) (calculate_order_quantity E s y tb),
          Debug (if long
                 then Long_and_short (calculate_order_quantity E s y ta) (a_symbol (pair_store s p))
                        (calculate_order_quantity E s y tb) (b_symbol (pair_store s p))
                 else Long_and_short (calculate_order_quantity E s y tb) (b_symbol (pair_store s p))
                        (calculate_order_quantity E s y ta) (a_symbol (pair_store s p)))]\<rparr>"
  by (simp add: open_position_def market_order_def debug_def Let_def)

lemma entry_step_flat:
  assumes "p \<notin> fst ` set (trading_pairs s)"
    and "model (pair_store s p) = Some m"
  shows "entry_step C E (Some y) p s =
     (let pr = pair_store s p;
          err = prices_0_close E (symbol_data s (a_symbol pr))
                  - (params_0 m + params_1 m * prices_0_close E (symbol_data s (b_symbol pr)));
          target = leverage C / real (pair_num C) / 2;
          enter = (\<lambda>ta tb msg.
            if pair_num C = 0 then Inl ZeroDivisionError
            else
            Inr (s\<lparr>trading_pairs := trading_pairs s @
                      [(p, TradingPair
                             \<lparr>ticket_symbol = a_symbol pr,
                                quantity = calculate_order_quantity E s y ta\<rparr>
                             \<lparr>ticket_symbol = b_symbol pr,
                                quantity = calculate_order_quantity E s y tb\<rparr>
                             (params_0 m) (params_1 m) (mean_error pr) (epsilon pr))],
                    events := events s @
                      [Market_order (a_symbol pr) (calculate_order_quantity E s y ta),
                       Market_order (b_symbol pr) (calculate_order_quantity E s y tb),
                       Debug msg]\<rparr>))
      in if err < mean_error pr - open_size C * epsilon pr then
           enter target (- target)
             (Long_and_short (calculate_order_quantity E s y target) (a_symbol pr)
                (calculate_order_quantity E s y (- target)) (b_symbol pr))
         else if err > mean_error pr + open_size C * epsilon pr then
           enter (- target) target
             (Long_and_short (calculate_order_quantity E s y target) (b_symbol pr)
                (calculate_order_quantity E s y (- target)) (a_symbol pr))
         else Inr s)"
  using assms
  by (simp add: entry_step_def entry_arguments_def spread_error_def open_position_effect
      update_absent Let_def)

lemma scenario_A_run:
  "outcome (run example_config example_env example_initial [example_bars 1 0]) = Inr ([], [])
   \<and> outcome (run example_config example_env example_initial
                 [example_bars 1 0, example_bars 2 1]) = Inr ([], [])
   \<and> outcome (run example_config example_env example_initial
                 [example_bars 1 0, example_bars 2 1, example_bars 3 2.5])
       = Inr ([Market_order ''A'' (- 50), Market_order ''B'' 50,
               Debug (Long_and_short 50 ''B'' (- 50) ''A'')],
              [(0, TradingPair \<lparr>ticket_symbol = ''A'', quantity = - 50\<rparr>
                               \<lparr>ticket_symbol = ''B'', quantity = 50\<rparr> 0 1 0 1)])"
  by (simp add: run_defs ex_defs)

subsection \<open>Frame lemmas\<close>

lemma close_position_frame [simp]:
  "pair_store (close_position p tp s) = pair_store s"
  "symbol_data (close_position p tp s) = symbol_data s"
  "selected_pair (close_position p tp s) = selected_pair s"
  "symbol_keys (close_position p tp s) = symbol_keys s"
  "pair_list (close_position p tp s) = pair_list s"
  "regenerate_time (close_position p tp s) = regenerate_time s"
  by (simp_all add: close_position_def market_order_def debug_def Let_def)

lemma close_step_frame [simp]:
  "pair_store (close_step C E ptp s) = pair_store s"
  "symbol_data (close_step C E ptp s) = symbol_data s"
  "selected_pair (close_step C E ptp s) = selected_pair s"
  "symbol_keys (close_step C E ptp s) = symbol_keys s"
  "pair_list (close_step C E ptp s) = pair_list s"
  "regenerate_time (close_step C E ptp s) = regenerate_time s"
  by (simp_all add: close_step_closes)

lemma close_loop_frame_all:
  "pair_store (fold (close_step C E) items s) = pair_store s \<and>
   symbol_data (fold (close_step C E) items s) = symbol_data s \<and>
   selected_pair (fold (close_step C E) items s) = selected_pair s \<and>
   symbol_keys (fold (close_step C E) items s) = symbol_keys s \<and>
   pair_list (fold (close_step C E) items s) = pair_list s \<and>
   regenerate_time (fold (close_step C E) items s) = regenerate_time s"
  by (induction items arbitrary: s) simp_all

lemma close_loop_frame [simp]:
  "pair_store (close_loop C E items s) = pair_store s"
  "symbol_data (close_loop C E items s) = symbol_data s"
  "selected_pair (close_loop C E items s) = selected_pair s"
  "symbol_keys (close_loop C E items s) = symbol_keys s"
  "pair_list (close_loop C E items s) = pair_list s"
  "regenerate_time (close_loop C E items s) = regenerate_time s"
  using close_loop_frame_all [of C E items s] by (simp_all add: close_loop_def)

lemma open_position_frame [simp]:
  "pair_store (open_position E y p m ta tb long s) = pair_store s"
  "symbol_data (open_position E y p m ta tb long s) = symbol_data s"
  "selected_pair (open_position E y p m ta tb long s) = selected_pair s"
  "symbol_keys (open_position E y p m ta tb long s) = symbol_keys s"
  "pair_list (open_position E y p m ta tb long s) = pair_list s"
  "regenerate_time (open_position E y p m ta tb long s) = regenerate_time s"
  by (simp_all add: open_position_effect)

lemma entry_step_frame:
  assumes "entry_step C E smb p s = Inr s'"
  shows "pair_store s' = pair_store s \<and> symbol_data s' = symbol_data s \<and>
    selected_pair s' = selected_pair s \<and> symbol_keys s' = symbol_keys s \<and>
    pair_list s' = pair_list s \<and> regenerate_time s' = regenerate_time s"
proof -
  from assms have "s' = s \<or> (\<exists>y m ta tb long. s' = open_position E y p m ta tb long s)"
    by (simp add: entry_step_def Let_def split: option.splits if_splits sum.splits prod.splits)
      blast+
  then consider "s' = s" | y m ta tb long where "s' = open_position E y p m ta tb long s"
    by blast
  then show ?thesis
  proof cases
    case 1
    then show ?thesis by simp
  next
    case 2
    then show ?thesis by simp
  qed
qed

lemma entry_loop_frame:
  assumes "entry_loop C E smb ps s = Inr s'"
  shows "pair_store s' = pair_store s \<and> symbol_data s' = symbol_data s \<and>
    selected_pair s' = selected_pair s \<and> symbol_keys s' = symbol_keys s \<and>
    pair_list s' = pair_list s \<and> regenerate_time s' = regenerate_time s"
  using assms
proof (induction ps arbitrary: s)
  case Nil
  then show ?case by simp
next
  case (Cons p ps)
  then obtain s1 where s1: "entry_step C E smb p s = Inr s1" "entry_loop C E smb ps s1 = Inr s'"
    by (auto split: sum.splits)
  from Cons.IH [OF s1(2)] entry_step_frame [OF s1(1)] show ?case by simp
qed

lemma update_fold_frame_all:
  "pair_store (fold (update_step E d) ks s) = pair_store s \<and>
   selected_pair (fold (update_step E d) ks s) = selected_pair s \<and>
   symbol_keys (fold (update_step E d) ks s) = symbol_keys s \<and>
   pair_list (fold (update_step E d) ks s) = pair_list s \<and>
   regenerate_time (fold (update_step E d) ks s) = regenerate_time s \<and>
   trading_pairs (fold (update_step E d) ks s) = trading_pairs s \<and>
   events (fold (update_step E d) ks s) = events s"
  by (induction ks arbitrary: s) (simp_all add: update_step_def split: option.splits)

lemma update_fold_frame [simp]:
  "pair_store (fold (update_step E d) ks s) = pair_store s"
  "selected_pair (fold (update_step E d) ks s) = selected_pair s"
  "symbol_keys (fold (update_step E d) ks s) = symbol_keys s"
  "pair_list (fold (update_step E d) ks s) = pair_list s"
  "regenerate_time (fold (update_step E d) ks s) = regenerate_time s"
  "trading_pairs (fold (update_step E d) ks s) = trading_pairs s"
  "events (fold (update_step E d) ks s) = events s"
  using update_fold_frame_all [of E d ks s] by simp_all

subsection \<open>epsilon\<close>













text \<open>
  Claim C6, as amended. On every entry of a flat, fitted pair the targets handed to
  \<^verbatim>\<open>calculate_order_quantity\<close> are \<open>leverage / pair_num / 2\<close> and its negation, where
  \<open>pair_num\<close> is the configured cap on the number of pairs and not the size of the
  selected list; the long branch gives leg A the positive and leg B the negative target,
  the short branch the reverse, and each order carries the quantity computed for its leg.
\<close>

theorem entry_targets_use_configured_cap:
  assumes "p \<notin> fst ` set (trading_pairs s)"
    and "model (pair_store s p) = Some m"
    and "entry_step C E (Some y) p s = Inr s'"
    and "s' \<noteq> s"
  shows "\<exists>qa qb. trading_pairs s' = trading_pairs s @
            [(p, TradingPair \<lparr>ticket_symbol = a_symbol (pair_store s p), quantity = qa\<rparr>
                             \<lparr>ticket_symbol = b_symbol (pair_store s p), quantity = qb\<rparr>
                             (params_0 m) (params_1 m)
                             (mean_error (pair_store s p)) (epsilon (pair_store s p)))]
          \<and> take 2 (drop (length (events s)) (events s')) =
              [Market_order (a_symbol (pair_store s p)) qa,
               Market_order (b_symbol (pair_store s p)) qb]
          \<and> (if prices_0_close E (symbol_data s (a_symbol (pair_store s p)))
                  - (params_0 m + params_1 m * prices_0_close E (symbol_data s (b_symbol (pair_store s p))))
                < mean_error (pair_store s p) - open_size C * epsilon (pair_store s p)
              then qa = calculate_order_quantity E s y (leverage C / real (pair_num C) / 2)
                 \<and> qb = calculate_order_quantity E s y (- (leverage C / real (pair_num C) / 2))
              else qa = calculate_order_quantity E s y (- (leverage C / real (pair_num C) / 2))
                 \<and> qb = calculate_order_quantity E s y (leverage C / real (pair_num C) / 2))"
  using assms(3,4)
  by (auto simp add: entry_step_flat [OF assms(1,2)] Let_def split: if_splits)

text \<open>
  The theorem at the instance: one selected pair, error 2.5, the short branch; the
  quantities are those of the targets -1/20 and 1/20.
\<close>

theorem entry_targets_use_configured_cap_witness:
  "0 \<notin> fst ` set (trading_pairs (example_state example_pair 2.5 []))
   \<and> model (pair_store (example_state example_pair 2.5 []) 0)
       = Some \<lparr>params_0 = 0, params_1 = 1, resid = [-1, 1]\<rparr>
   \<and> (\<exists>s'. entry_step example_config example_env (Some ''B'') 0
               (example_state example_pair 2.5 []) = Inr s'
        \<and> s' \<noteq> example_state example_pair 2.5 []
        \<and> trading_pairs s' =
             [(0, TradingPair \<lparr>ticket_symbol = ''A'', quantity = - 50\<rparr>
                              \<lparr>ticket_symbol = ''B'', quantity = 50\<rparr> 0 1 0 1)])"
proof -
  let ?st = "example_state example_pair 2.5 []"
  let ?m = "\<lparr>params_0 = 0, params_1 = 1, resid = [-1, 1]\<rparr>"
  have h1: "0 \<notin> fst ` set (trading_pairs ?st)"
    by (simp add: example_state_def)
  have h2: "model (pair_store ?st 0) = Some ?m"
    by (simp add: example_state_def example_pair_def)
  have "\<exists>s'. entry_step example_config example_env (Some ''B'') 0 ?st = Inr s' \<and> s' \<noteq> ?st"
    unfolding entry_step_flat [OF h1 h2] by (simp add: Let_def ex_defs)
  then obtain s' where h3: "entry_step example_config example_env (Some ''B'') 0 ?st = Inr s'"
    and h4: "s' \<noteq> ?st" by blast
  from entry_targets_use_configured_cap [OF h1 h2 h3 h4]
  have "trading_pairs s' =
             [(0, TradingPair \<lparr>ticket_symbol = ''A'', quantity = - 50\<rparr>
                              \<lparr>ticket_symbol = ''B'', quantity = 50\<rparr> 0 1 0 1)]"
    by (auto simp add: ex_defs)
  with h1 h2 h3 h4 show ?thesis by blast
qed

text \<open>
  Claim C6 as stated fails: one pair is selected, so the claim's target is 1/1/2 per leg
  and each leg's own instrument gives leg A (price 12.5) the quantity -400 and leg B
  (price 10) the quantity 500; the update sends -50 and 50.
\<close>

theorem entry_quantity_counterexample:
  "length (selected_pair (example_state example_pair 2.5 [])) = 1
   \<and> calculate_order_quantity example_env (example_state example_pair 2.5 []) ''A''
        (- (leverage example_config
              / real (length (selected_pair (example_state example_pair 2.5 []))) / 2)) = - 400
   \<and> calculate_order_quantity example_env (example_state example_pair 2.5 []) ''B''
        (leverage example_config
              / real (length (selected_pair (example_state example_pair 2.5 []))) / 2) = 500
   \<and> outcome (on_data example_config example_env \<lparr>time = 1, bars = Map.empty\<rparr>
                 (example_state example_pair 2.5 []))
       = Inr ([Market_order ''A'' (- 50), Market_order ''B'' 50,
               Debug (Long_and_short 50 ''B'' (- 50) ''A'')],
              [(0, TradingPair \<lparr>ticket_symbol = ''A'', quantity = - 50\<rparr>
                               \<lparr>ticket_symbol = ''B'', quantity = 50\<rparr> 0 1 0 1)])"
  by (simp add: run_defs ex_defs)

text \<open>
  Claim C9, as amended. \<^verbatim>\<open>cointegration_test\<close> returns \<^verbatim>\<open>False\<close> and leaves the
  candidate as it was whenever the cointegration p-value is at least 0.05, and only then.
  It returns \<^verbatim>\<open>True\<close> only when the cointegration p-value is below 0.05 and the
  regression and the test of its residuals have both returned, and then \<^verbatim>\<open>model\<close>,
  \<^verbatim>\<open>stationary_p\<close>, \<^verbatim>\<open>mean_error\<close> and \<^verbatim>\<open>epsilon\<close> are set from them. It catches
  nothing: an exception of the cointegration routine or of the regression leaves the
  candidate as it was, and an exception of the residual test leaves it with \<^verbatim>\<open>model\<close>
  already overwritten.
\<close>

theorem cointegration_test_outcomes:
  fixes E :: "('sd, 'bar) env" and s :: "'sd algo" and pr :: pairs
  defines "c \<equiv> coint E (sd_series E (symbol_data s (a_symbol pr)))
                          (sd_series E (symbol_data s (b_symbol pr)))"
    and "r \<equiv> ols E (pair_data_frame E s pr)"
  shows "(\<forall>pv. c = Inr pv \<and> pv \<ge> 0.05 \<longrightarrow> cointegration_test E s pr = (Inr False, pr))
    \<and> (fst (cointegration_test E s pr) = Inr False \<longrightarrow> (\<exists>pv. c = Inr pv \<and> pv \<ge> 0.05))
    \<and> (fst (cointegration_test E s pr) = Inr True \<longrightarrow>
          (\<exists>pv m sp. c = Inr pv \<and> pv < 0.05 \<and> r = Inr m \<and> adfuller E (resid m) = Inr sp \<and>
             snd (cointegration_test E s pr) =
               pr\<lparr>model := Some m, stationary_p := Some sp,
                   mean_error := np_mean (resid m), epsilon := np_std (resid m)\<rparr>))
    \<and> (\<forall>e. c = Inl e \<longrightarrow> cointegration_test E s pr = (Inl e, pr))
    \<and> (\<forall>pv e. c = Inr pv \<and> pv < 0.05 \<and> r = Inl e \<longrightarrow>
          cointegration_test E s pr = (Inl e, pr))
    \<and> (\<forall>pv m e. c = Inr pv \<and> pv < 0.05 \<and> r = Inr m \<and> adfuller E (resid m) = Inl e \<longrightarrow>
          cointegration_test E s pr = (Inl e, pr\<lparr>model := Some m\<rparr>))"
  unfolding c_def r_def
  by (auto simp add: cointegration_test_def Let_def split: sum.splits)

text \<open>
  The theorem at the instance: with p-value 0.5 the test returns \<^verbatim>\<open>False\<close> and the
  candidate is unchanged; with p-value 0.01 it returns \<^verbatim>\<open>True\<close> and the candidate is
  fitted.
\<close>

theorem cointegration_test_outcomes_witness:
  "cointegration_test (example_env\<lparr>coint := \<lambda>xs ys. Inr 0.5\<rparr>) example_initial (Pairs ''A'' ''B'')
     = (Inr False, Pairs ''A'' ''B'')
   \<and> fst (cointegration_test example_env example_initial (Pairs ''A'' ''B'')) = Inr True
   \<and> snd (cointegration_test example_env example_initial (Pairs ''A'' ''B'')) = example_pair"
proof -
  note t = cointegration_test_outcomes [where s = example_initial and pr = "Pairs ''A'' ''B''"]
  have a: "coint (example_env\<lparr>coint := \<lambda>xs ys. Inr 0.5\<rparr>)
             (sd_series (example_env\<lparr>coint := \<lambda>xs ys. Inr 0.5\<rparr>)
                (symbol_data example_initial (a_symbol (Pairs ''A'' ''B''))))
             (sd_series (example_env\<lparr>coint := \<lambda>xs ys. Inr 0.5\<rparr>)
                (symbol_data example_initial (b_symbol (Pairs ''A'' ''B'')))) = Inr 0.5
           \<and> (0.5::real) \<ge> 0.05"
    by simp
  from t [where E = "example_env\<lparr>coint := \<lambda>xs ys. Inr 0.5\<rparr>"] a
  have 1: "cointegration_test (example_env\<lparr>coint := \<lambda>xs ys. Inr 0.5\<rparr>) example_initial
             (Pairs ''A'' ''B'') = (Inr False, Pairs ''A'' ''B'')"
    by blast
  have 2: "fst (cointegration_test example_env example_initial (Pairs ''A'' ''B'')) = Inr True"
    by (simp add: cointegration_test_def example_env_def Let_def)
  from t [where E = example_env] 2
  have 3: "snd (cointegration_test example_env example_initial (Pairs ''A'' ''B'')) = example_pair"
    by (auto simp add: example_env_def example_pair_def Pairs_def np_mean_def np_std_def)
  from 1 2 3 show ?thesis by blast
qed

text \<open>
  Claim C9 as stated fails: when the residual test raises, the exception reaches the
  caller (no \<^verbatim>\<open>False\<close> is returned) and the candidate, which had no model, has one.
\<close>

theorem cointegration_test_raise_counterexample:
  "cointegration_test (example_env\<lparr>adfuller := \<lambda>xs. Inl LibraryError\<rparr>) example_initial
     (Pairs ''A'' ''B'')
     = (Inl LibraryError,
        (Pairs ''A'' ''B'')\<lparr>model := Some \<lparr>params_0 = 0, params_1 = 1, resid = [-1, 1]\<rparr>\<rparr>)
   \<and> model (Pairs ''A'' ''B'') = None"
  by (simp add: cointegration_test_def example_env_def Pairs_def Let_def)

subsection \<open>Correlation\<close>

lemma concat_axis_1_swap: "concat_axis_1 fb fa = map prod.swap (concat_axis_1 fa fb)"
  by (simp add: concat_axis_1_def Un_commute)

lemma dropna_swap: "dropna (map prod.swap rows) = map prod.swap (dropna rows)"
  by (induction rows) (auto simp add: dropna_def List.map_filter_simps split: option.splits)

lemma data_frame_swap: "data_frame fb fa = map prod.swap (data_frame fa fb)"
  by (simp add: data_frame_def concat_axis_1_swap [of fb fa] dropna_swap)

lemma pearson_swap: "pearson (map prod.swap rows) = pearson rows"
proof -
  have 1: "map fst (map prod.swap rows) = map snd rows" "map snd (map prod.swap rows) = map fst rows"
    by (simp_all add: comp_def)
  have 2: "sum_list (map (\<lambda>(x, y). (x - c) * (y - d)) (map prod.swap rows))
         = sum_list (map (\<lambda>(x, y). (x - d) * (y - c)) rows)" for c d :: real
    by (simp add: comp_def case_prod_unfold mult.commute)
  show ?thesis
    unfolding pearson_def Let_def 1 2 by (simp add: mult.commute)
qed

text \<open>
  Claim C10. The correlation of a pair is symmetric in its two instruments: exchanging
  them exchanges the two columns of the synchronised frame (the rows where both series have
  a value) and leaves its rows as they are, and the Pearson coefficient of a frame does not
  change when its columns are exchanged; so \<^verbatim>\<open>correlation\<close> of (B, A) is that of (A, B),
  and is NaN in the same cases.
\<close>

theorem correlation_symmetric:
  "pearson (data_frame fb fa) = pearson (data_frame fa fb)
   \<and> data_frame fb fa = map prod.swap (data_frame fa fb)
   \<and> correlation (E\<lparr>corr := pearson\<rparr>) s
        (pr\<lparr>a_symbol := b_symbol pr, b_symbol := a_symbol pr\<rparr>)
     = correlation (E\<lparr>corr := pearson\<rparr>) s pr"
proof -
  have 1: "pearson (data_frame y x) = pearson (data_frame x y)" for x y
    using pearson_swap [of "data_frame x y"] by (simp add: data_frame_swap [of y x])
  have 2: "data_frame fb fa = map prod.swap (data_frame fa fb)"
    by (rule data_frame_swap)
  have 3: "correlation (E\<lparr>corr := pearson\<rparr>) s
        (pr\<lparr>a_symbol := b_symbol pr, b_symbol := a_symbol pr\<rparr>)
     = correlation (E\<lparr>corr := pearson\<rparr>) s pr"
    by (simp add: correlation_def pair_data_frame_def
        1 [of "sd_data_frame E (symbol_data s (b_symbol pr))"
              "sd_data_frame E (symbol_data s (a_symbol pr))"])
  from 1 [of fb fa] 2 3 show ?thesis by blast
qed

text \<open>
  The theorem at an instance: two series that overlap at times 2 and 3, where the
  synchronised rows are (2, 2) and (3, 4) and the coefficient is 1 in both orders.
\<close>

theorem correlation_symmetric_witness:
  "data_frame [(1, 1), (2, 2), (3, 3)] [(2, 2), (3, 4), (4, 9)] = [(2, 2), (3, 4)]
   \<and> pearson (data_frame [(1, 1), (2, 2), (3, 3)] [(2, 2), (3, 4), (4, 9)]) = Some 1
   \<and> pearson (data_frame [(2, 2), (3, 4), (4, 9)] [(1, 1), (2, 2), (3, 3)]) = Some 1"
proof -
  have 1: "data_frame [(1, 1), (2, 2), (3, 3)] [(2, 2), (3, 4), (4, 9)] = [(2, 2), (3, 4)]"
    by (simp add: data_frame_def concat_axis_1_def dropna_def List.map_filter_simps
        insert_commute)
  have 2: "pearson [(2, 2), (3, 4)] = Some 1"
    by (simp add: pearson_def np_mean_def Let_def power2_eq_square)
  from correlation_symmetric [where fa = "[(1, 1), (2, 2), (3, 3)]"
      and fb = "[(2, 2), (3, 4), (4, 9)]"]
  have "pearson (data_frame [(2, 2), (3, 4), (4, 9)] [(1, 1), (2, 2), (3, 3)])
      = pearson (data_frame [(1, 1), (2, 2), (3, 3)] [(2, 2), (3, 4), (4, 9)])"
    by blast
  with 1 2 show ?thesis by simp
qed

subsection \<open>Selection\<close>

lemma same_data_refl [simp]: "same_data s s"
  by (simp add: same_data_def)

lemma same_data_trans: "same_data s1 s2 \<Longrightarrow> same_data s2 s3 \<Longrightarrow> same_data s1 s3"
  by (simp add: same_data_def)

lemma cointegration_test_symbols:
  "a_symbol (snd (cointegration_test E s pr)) = a_symbol pr"
  "b_symbol (snd (cointegration_test E s pr)) = b_symbol pr"
  by (simp_all add: cointegration_test_def Let_def split: sum.splits)

lemma cointegration_test_cong:
  assumes "symbol_data s1 = symbol_data s2" "a_symbol pr1 = a_symbol pr2" "b_symbol pr1 = b_symbol pr2"
  shows "fst (cointegration_test E s1 pr1) = fst (cointegration_test E s2 pr2)"
    and "fst (cointegration_test E s1 pr1) = Inr True \<Longrightarrow>
         stationary_p (snd (cointegration_test E s1 pr1)) = stationary_p (snd (cointegration_test E s2 pr2))"
  using assms
  by (auto simp add: cointegration_test_def pair_data_frame_def Let_def
      split: sum.splits if_splits)

lemma correlation_cong:
  assumes "same_data s1 s2"
  shows "correlation E s1 (pair_store s1 p) = correlation E s2 (pair_store s2 p)"
  using assms by (simp add: same_data_def correlation_def pair_data_frame_def)

lemma survives_cong:
  assumes "same_data s1 s2"
  shows "survives C E s1 p = survives C E s2 p"
proof -
  from assms have d: "symbol_data s1 = symbol_data s2"
    "a_symbol (pair_store s1 p) = a_symbol (pair_store s2 p)"
    "b_symbol (pair_store s1 p) = b_symbol (pair_store s2 p)"
    by (simp_all add: same_data_def)
  note c = cointegration_test_cong [OF d, of E]
  show ?thesis
    unfolding survives_def correlation_cong [OF assms, of E p]
    using c by (cases "fst (cointegration_test E s1 (pair_store s1 p)) = Inr True") auto
qed

lemma same_data_store_update:
  "a_symbol pr = a_symbol (pair_store s p) \<Longrightarrow> b_symbol pr = b_symbol (pair_store s p) \<Longrightarrow>
   same_data s (s\<lparr>pair_store := (pair_store s)(p := pr)\<rparr>)"
  by (simp add: same_data_def)

lemma select_loop_step:
  assumes "select_loop C E (p # ps) sel s = Inr (sel', s')"
  shows "\<exists>s1. same_data s s1 \<and> pair_list s1 = pair_list s \<and> events s1 = events s \<and>
           trading_pairs s1 = trading_pairs s \<and>
           select_loop C E ps (if survives C E s p then sel @ [p] else sel) s1 = Inr (sel', s')"
proof (cases "float_lt (correlation E s (pair_store s p)) (min_corr_threshold C)")
  case True
  with assms have "select_loop C E ps sel s = Inr (sel', s')" by simp
  moreover from True have "\<not> survives C E s p" by (simp add: survives_def)
  ultimately show ?thesis by (intro exI [of _ s]) simp
next
  case False
  obtain r pr where t: "cointegration_test E s (pair_store s p) = (r, pr)"
    by (cases "cointegration_test E s (pair_store s p)")
  let ?s1 = "s\<lparr>pair_store := (pair_store s)(p := pr)\<rparr>"
  have sd: "same_data s ?s1"
    using cointegration_test_symbols [of E s "pair_store s p"] t
    by (intro same_data_store_update) simp_all
  from assms False t obtain b where r: "r = Inr b"
    by (cases r) simp_all
  have "select_loop C E ps (if survives C E s p then sel @ [p] else sel) ?s1 = Inr (sel', s')"
    using assms False t r
    by (auto simp add: survives_def Let_def split: option.splits if_splits)
  with sd show ?thesis by (intro exI [of _ ?s1]) simp
qed

lemma select_loop_result:
  assumes "select_loop C E ps sel s = Inr (sel', s')"
  shows "sel' = sel @ filter (survives C E s) ps \<and> same_data s s' \<and>
         pair_list s' = pair_list s \<and> events s' = events s \<and>
         trading_pairs s' = trading_pairs s"
  using assms
proof (induction ps arbitrary: sel s)
  case Nil
  then show ?case by simp
next
  case (Cons p ps)
  from select_loop_step [OF Cons.prems] obtain s1 where
    s1: "same_data s s1" "pair_list s1 = pair_list s" "events s1 = events s"
      "trading_pairs s1 = trading_pairs s"
    and l: "select_loop C E ps (if survives C E s p then sel @ [p] else sel) s1 = Inr (sel', s')"
    by blast
  from Cons.IH [OF l] have
    r: "sel' = (if survives C E s p then sel @ [p] else sel) @ filter (survives C E s1) ps"
    and d: "same_data s1 s'" and f: "pair_list s' = pair_list s1" "events s' = events s1"
      "trading_pairs s' = trading_pairs s1"
    by simp_all
  have "filter (survives C E s1) ps = filter (survives C E s) ps"
    using survives_cong [OF s1(1), of C E] by (intro filter_cong) simp_all
  with r s1 d f same_data_trans [OF s1(1) d] show ?case by simp
qed

lemma those_length: "those xs = Some ys \<Longrightarrow> length ys = length xs"
  by (induction xs arbitrary: ys) (auto split: option.splits)

lemma set_sort_by_stationary_p:
  assumes "sort_by_stationary_p s sel = Inr sel'"
  shows "set sel' = set sel" and "length sel' = length sel"
proof -
  from assms obtain ks where k: "those (map (\<lambda>p. stationary_p (pair_store s p)) sel) = Some ks"
    and r: "sel' = map snd (sort_key fst (zip ks sel))"
    by (auto simp add: sort_by_stationary_p_def split: option.splits)
  from those_length [OF k] have len: "length ks = length sel" by simp
  have "set sel' = snd ` set (zip ks sel)" using r by simp
  also have "\<dots> = set (map snd (zip ks sel))" by simp
  also have "\<dots> = set sel" using len by simp
  finally show "set sel' = set sel" .
  show "length sel' = length sel" using r len by simp
qed

lemma sort_by_correlation_cong:
  assumes "same_data s1 s2"
  shows "sort_by_correlation E s1 sel = sort_by_correlation E s2 sel"
  using correlation_cong [OF assms, of E] by (simp add: sort_by_correlation_def)

lemma those_map_the: "those (map g xs) = Some ks \<Longrightarrow> ks = map (\<lambda>x. the (g x)) xs"
  by (induction xs arbitrary: ks) (auto split: option.splits)

lemma map_snd_insort_key:
  assumes "\<forall>kv\<in>set ys. fst kv = f (snd kv)"
  shows "map snd (insort_key fst (f x, x) ys) = insort_key f x (map snd ys)"
  using assms by (induction ys) auto

lemma set_insort_key_keyed:
  assumes "\<forall>kv\<in>set ys. fst kv = f (snd kv)"
  shows "\<forall>kv\<in>set (insort_key fst (f x, x) ys). fst kv = f (snd kv)"
  using assms by (auto simp add: set_insort_key)

lemma sort_key_zip:
  "map snd (sort_key fst (zip (map f xs) xs)) = sort_key f xs
   \<and> (\<forall>kv\<in>set (sort_key fst (zip (map f xs) xs)). fst kv = f (snd kv))"
proof (induction xs)
  case Nil
  show ?case by simp
next
  case (Cons x xs)
  then show ?case
    using map_snd_insort_key [of "sort_key fst (zip (map f xs) xs)" f x]
      set_insort_key_keyed [of "sort_key fst (zip (map f xs) xs)" f x]
    by simp
qed

lemma sort_by_stationary_p_result:
  assumes "sort_by_stationary_p s sel = Inr sel'"
  shows "sel' = sort_key (\<lambda>p. the (stationary_p (pair_store s p))) sel"
proof -
  from assms obtain ks where k: "those (map (\<lambda>p. stationary_p (pair_store s p)) sel) = Some ks"
    and r: "sel' = map snd (sort_key fst (zip ks sel))"
    by (auto simp add: sort_by_stationary_p_def split: option.splits)
  from those_map_the [OF k] r sort_key_zip [of "\<lambda>p. the (stationary_p (pair_store s p))" sel]
  show ?thesis by simp
qed

lemma generate_pairs_result:
  assumes "generate_pairs C E s = Inr (sel, s')"
  shows "sel = sort_key (\<lambda>p. the (stationary_p (pair_store s' p)))
                 (take (pair_num C)
                    (sort_by_correlation E s (filter (survives C E s) (pair_list s))))"
    and "pair_list s' = pair_list s"
    and "same_data s s'"
proof -
  let ?surv = "filter (survives C E s) (pair_list s)"
  from assms obtain sel0 s1 where l: "select_loop C E (pair_list s) [] s = Inr (sel0, s1)"
    by (auto simp add: generate_pairs_def split: sum.splits)
  from select_loop_result [OF l] have sel0: "sel0 = ?surv" and d: "same_data s s1"
    and pl: "pair_list s1 = pair_list s"
    by simp_all
  note k = sort_by_correlation_cong [OF d, of E, symmetric]
  have "sel = sort_key (\<lambda>p. the (stationary_p (pair_store s' p)))
                 (take (pair_num C) (sort_by_correlation E s ?surv))
      \<and> pair_list s' = pair_list s \<and> same_data s s'"
  proof (cases "sel0 = []")
    case True
    with assms l have "sel = []" "s' = debug No_selected_pair s1"
      by (simp_all add: generate_pairs_def)
    with True sel0 d pl show ?thesis
      by (simp add: debug_def same_data_def sort_by_correlation_def)
  next
    case False
    let ?sel2 = "take (pair_num C) (sort_by_correlation E s sel0)"
    have t: "(if pair_num C < length (sort_by_correlation E s1 sel0)
              then take (pair_num C) (sort_by_correlation E s1 sel0)
              else sort_by_correlation E s1 sel0) = ?sel2"
      by (simp add: k)
    from assms l False have "sort_by_stationary_p s1 ?sel2 = Inr sel \<and> s' = s1"
      unfolding generate_pairs_def by (simp add: Let_def t split: sum.splits)
    then have r: "sort_by_stationary_p s1 ?sel2 = Inr sel" and s': "s' = s1" by simp_all
    from sort_by_stationary_p_result [OF r] sel0 d pl s' show ?thesis by simp
  qed
  then show "sel = sort_key (\<lambda>p. the (stationary_p (pair_store s' p)))
                 (take (pair_num C) (sort_by_correlation E s ?surv))"
    and "pair_list s' = pair_list s" and "same_data s s'"
    by simp_all
qed

lemma sorted_take_drop:
  assumes "sorted (map k xs)" "x \<in> set (take n xs)" "y \<in> set xs" "y \<notin> set (take n xs)"
  shows "k x \<le> (k y :: real)"
proof -
  have "xs = take n xs @ drop n xs" by simp
  with assms(3,4) have y: "y \<in> set (drop n xs)"
    by (metis Un_iff set_append)
  from assms(1) have "sorted (map k (take n xs) @ map k (drop n xs))"
    by (simp flip: map_append)
  then have "\<forall>a\<in>set (map k (take n xs)). \<forall>b\<in>set (map k (drop n xs)). a \<le> b"
    by (simp add: sorted_append)
  with assms(2) y show ?thesis by auto
qed

lemma not_survives_coint:
  assumes "coint E (sd_series E (symbol_data s (a_symbol (pair_store s p))))
                   (sd_series E (symbol_data s (b_symbol (pair_store s p)))) = Inr pv"
    and "pv \<ge> 0.05"
  shows "\<not> survives C E s p"
  using assms by (simp add: survives_def cointegration_test_def)

subsection \<open>The closing loop\<close>

lemma close_position_eq:
  "close_position p tp s =
     s\<lparr>trading_pairs := AList.delete p (trading_pairs s),
       events := events s @ closing_events s (p, tp)\<rparr>"
  by (simp add: close_position_def market_order_def debug_def closing_events_def Let_def)

lemma closes_frame:
  assumes "selected_pair s' = selected_pair s" "pair_store s' = pair_store s"
    "symbol_data s' = symbol_data s"
  shows "closes C E s' ptp = closes C E s ptp"
  using assms by (simp add: closes_def spread_error_def)

lemma closing_events_frame:
  "pair_store s' = pair_store s \<Longrightarrow> closing_events s' ptp = closing_events s ptp"
  by (simp add: closing_events_def)

lemma close_step_eq:
  "close_step C E ptp s =
     (if closes C E s ptp
      then s\<lparr>trading_pairs := AList.delete (fst ptp) (trading_pairs s),
             events := events s @ closing_events s ptp\<rparr>
      else s)"
  by (simp add: close_step_closes close_position_eq [of "fst ptp" "snd ptp" s])

lemma closes_close_step [simp]: "closes C E (close_step C E' ptp' s) ptp = closes C E s ptp"
  by (rule closes_frame) simp_all

lemma closing_events_close_step [simp]:
  "closing_events (close_step C E ptp' s) ptp = closing_events s ptp"
  by (rule closing_events_frame) simp

lemma close_loop_fold:
  "fold (close_step C E) items s =
     s\<lparr>trading_pairs :=
         fold (\<lambda>ptp al. if closes C E s ptp then AList.delete (fst ptp) al else al) items
           (trading_pairs s),
       events := events s @
         concat (map (\<lambda>ptp. if closes C E s ptp then closing_events s ptp else []) items)\<rparr>"
proof (induction items arbitrary: s)
  case Nil
  show ?case by simp
next
  case (Cons ptp items)
  let ?s1 = "close_step C E ptp s"
  show ?case
    by (simp add: Cons.IH [of ?s1] cong: if_cong) (simp add: close_step_eq)
qed

lemma fold_delete_filter:
  "fold (\<lambda>ptp al. if P ptp then AList.delete (fst ptp) al else al) items al =
     filter (\<lambda>kv. fst kv \<notin> fst ` set (filter P items)) al"
proof (induction items arbitrary: al)
  case Nil
  show ?case by simp
next
  case (Cons x items)
  show ?case
    by (auto simp add: Cons.IH AList.delete_eq intro!: filter_cong)
qed

lemma close_loop_eq:
  "close_loop C E items s =
     s\<lparr>trading_pairs :=
         filter (\<lambda>kv. fst kv \<notin> fst ` set (filter (closes C E s) items)) (trading_pairs s),
       events := events s @
         concat (map (\<lambda>ptp. if closes C E s ptp then closing_events s ptp else []) items)\<rparr>"
  by (simp add: close_loop_def close_loop_fold fold_delete_filter)

lemma distinct_keys_filter:
  "distinct (map fst al) \<Longrightarrow> distinct (map fst (filter P al))"
  by (simp add: distinct_map_filter)

lemma close_loop_distinct:
  "distinct (map fst (trading_pairs s)) \<Longrightarrow>
   distinct (map fst (trading_pairs (close_loop C E items s)))"
  by (simp add: close_loop_eq distinct_map_filter)

lemma close_loop_keys_selected:
  "fst ` set (trading_pairs (close_loop C E (trading_pairs s) s)) \<subseteq> set (selected_pair s)"
proof
  fix p assume "p \<in> fst ` set (trading_pairs (close_loop C E (trading_pairs s) s))"
  then obtain tp where in_al: "(p, tp) \<in> set (trading_pairs s)"
    and keep: "p \<notin> fst ` set (filter (closes C E s) (trading_pairs s))"
    by (auto simp add: close_loop_eq)
  show "p \<in> set (selected_pair s)"
  proof (rule ccontr)
    assume "p \<notin> set (selected_pair s)"
    then have "closes C E s (p, tp)" by (simp add: closes_def)
    with in_al have "p \<in> fst ` set (filter (closes C E s) (trading_pairs s))" by force
    with keep show False by contradiction
  qed
qed

lemma close_loop_distinct_eq:
  assumes "distinct (map fst (trading_pairs s))"
  shows "trading_pairs (close_loop C E (trading_pairs s) s) =
         filter (\<lambda>ptp. \<not> closes C E s ptp) (trading_pairs s)"
proof -
  have "kv \<in> set (trading_pairs s) \<Longrightarrow>
        (fst kv \<in> fst ` set (filter (closes C E s) (trading_pairs s))) = closes C E s kv" for kv
  proof
    assume kv: "kv \<in> set (trading_pairs s)"
      and "fst kv \<in> fst ` set (filter (closes C E s) (trading_pairs s))"
    then obtain kv' where kv': "kv' \<in> set (trading_pairs s)" "closes C E s kv'" "fst kv' = fst kv"
      by auto
    from assms kv kv'(1,3) have "kv' = kv"
      by (metis eq_key_imp_eq_value prod.collapse)
    with kv'(2) show "closes C E s kv" by simp
  next
    assume "kv \<in> set (trading_pairs s)" "closes C E s kv"
    then show "fst kv \<in> fst ` set (filter (closes C E s) (trading_pairs s))" by force
  qed
  then show ?thesis
    by (simp add: close_loop_eq cong: filter_cong)
qed

subsection \<open>The entry loop and one update\<close>

lemma entry_step_result:
  assumes "entry_step C E smb p s = Inr s'"
  shows "s' = s \<or>
         (p \<notin> fst ` set (trading_pairs s) \<and>
          (\<exists>tp a1 q1 a2 q2 x1 x2 x3 x4.
             s' = s\<lparr>trading_pairs := trading_pairs s @ [(p, tp)],
                    events := events s @ [Market_order a1 q1, Market_order a2 q2,
                                          Debug (Long_and_short x1 x2 x3 x4)]\<rparr>))"
proof (cases "p \<in> fst ` set (trading_pairs s)")
  case True
  with assms show ?thesis
    by (auto simp add: entry_step_def Let_def split: option.splits)
next
  case False
  from assms obtain m where m: "model (pair_store s p) = Some m"
    by (auto simp add: entry_step_def Let_def split: option.splits)
  show ?thesis
  proof (cases smb)
    case None
    with assms m False show ?thesis
      by (auto simp add: entry_step_def entry_arguments_def Let_def split: if_splits)
  next
    case (Some y)
    from assms [unfolded Some entry_step_flat [OF False m]] False show ?thesis
      by (simp add: Let_def split: if_splits) blast+
  qed
qed

lemma entry_loop_result:
  assumes "entry_loop C E smb ps s = Inr s'"
  shows "\<exists>added new. trading_pairs s' = trading_pairs s @ added \<and>
           fst ` set added \<subseteq> set ps \<and>
           (distinct (map fst (trading_pairs s)) \<longrightarrow> distinct (map fst (trading_pairs s'))) \<and>
           events s' = events s @ new \<and> (\<forall>nm. Debug (Close nm) \<notin> set new)"
  using assms
proof (induction ps arbitrary: s)
  case Nil
  then show ?case by simp
next
  case (Cons p ps)
  then obtain s1 where s1: "entry_step C E smb p s = Inr s1"
    and l: "entry_loop C E smb ps s1 = Inr s'"
    by (auto split: sum.splits)
  from Cons.IH [OF l] obtain added new where
    ih: "trading_pairs s' = trading_pairs s1 @ added" "fst ` set added \<subseteq> set ps"
      "distinct (map fst (trading_pairs s1)) \<longrightarrow> distinct (map fst (trading_pairs s'))"
      "events s' = events s1 @ new" "\<forall>nm. Debug (Close nm) \<notin> set new"
    by blast
  from entry_step_result [OF s1] consider "s1 = s"
    | tp a1 q1 a2 q2 x1 x2 x3 x4 where "p \<notin> fst ` set (trading_pairs s)"
        "s1 = s\<lparr>trading_pairs := trading_pairs s @ [(p, tp)],
                 events := events s @ [Market_order a1 q1, Market_order a2 q2,
                                       Debug (Long_and_short x1 x2 x3 x4)]\<rparr>"
    by blast
  then show ?case
  proof cases
    case 1
    with ih show ?thesis
      by (intro exI [of _ added] exI [of _ new]) auto
  next
    case 2
    with ih show ?thesis
      by (intro exI [of _ "(p, tp) # added"]
          exI [of _ "[Market_order a1 q1, Market_order a2 q2,
                      Debug (Long_and_short x1 x2 x3 x4)] @ new"]) auto
  qed
qed

lemma trade_result:
  assumes "trade C E smb s = Inr s'"
  shows "\<exists>added new.
           trading_pairs s' =
             filter (\<lambda>kv. fst kv \<notin> fst ` set (filter (closes C E s) (trading_pairs s)))
               (trading_pairs s) @ added \<and>
           fst ` set added \<subseteq> set (selected_pair s) \<and>
           (distinct (map fst (trading_pairs s)) \<longrightarrow> distinct (map fst (trading_pairs s'))) \<and>
           events s' = events s @
             concat (map (\<lambda>ptp. if closes C E s ptp then closing_events s ptp else [])
                       (trading_pairs s)) @ new \<and>
           (\<forall>nm. Debug (Close nm) \<notin> set new)"
proof -
  let ?s1 = "close_loop C E (trading_pairs s) s"
  from assms have l: "entry_loop C E smb (selected_pair s) ?s1 = Inr s'"
    by (simp add: trade_def)
  from entry_loop_result [OF l] obtain added new where
    r: "trading_pairs s' = trading_pairs ?s1 @ added" "fst ` set added \<subseteq> set (selected_pair s)"
      "distinct (map fst (trading_pairs ?s1)) \<longrightarrow> distinct (map fst (trading_pairs s'))"
      "events s' = events ?s1 @ new" "\<forall>nm. Debug (Close nm) \<notin> set new"
    by blast
  from r close_loop_distinct [of s C E "trading_pairs s"] show ?thesis
    by (intro exI [of _ added] exI [of _ new]) (simp add: close_loop_eq)
qed

lemma trade_frame:
  assumes "trade C E smb s = Inr s'"
  shows "selected_pair s' = selected_pair s" "pair_store s' = pair_store s"
    "symbol_data s' = symbol_data s"
  using entry_loop_frame [of C E smb "selected_pair s" "close_loop C E (trading_pairs s) s" s']
    assms by (simp_all add: trade_def)

lemma trade_keys_selected:
  assumes "trade C E smb s = Inr s'"
  shows "fst ` set (trading_pairs s') \<subseteq> set (selected_pair s')"
proof -
  let ?s1 = "close_loop C E (trading_pairs s) s"
  from assms have l: "entry_loop C E smb (selected_pair s) ?s1 = Inr s'"
    by (simp add: trade_def)
  from entry_loop_result [OF l] obtain added where
    r: "trading_pairs s' = trading_pairs ?s1 @ added" "fst ` set added \<subseteq> set (selected_pair s)"
    by blast
  from r close_loop_keys_selected [of C E s] trade_frame(1) [OF assms]
  show ?thesis by auto
qed

lemma generate_pairs_frame:
  assumes "generate_pairs C E s = Inr (sel, s')"
  shows "trading_pairs s' = trading_pairs s"
    and "events s' = events s \<or> events s' = events s @ [Debug No_selected_pair]"
proof -
  from assms obtain sel0 s1 where l: "select_loop C E (pair_list s) [] s = Inr (sel0, s1)"
    and s': "s' = s1 \<or> s' = debug No_selected_pair s1"
    by (auto simp add: generate_pairs_def Let_def split: sum.splits if_splits prod.splits)
  from select_loop_result [OF l] s'
  show "trading_pairs s' = trading_pairs s"
    and "events s' = events s \<or> events s' = events s @ [Debug No_selected_pair]"
    by (auto simp add: debug_def)
qed

lemma regenerate_frame:
  assumes "regenerate C E d s = Inr s'"
  shows "trading_pairs s' = trading_pairs s"
    and "events s' = events s \<or> events s' = events s @ [Debug No_selected_pair]"
proof -
  have "trading_pairs s' = trading_pairs s \<and>
        (events s' = events s \<or> events s' = events s @ [Debug No_selected_pair])"
  proof (cases "regenerate_time s < time d")
    case True
    with assms obtain sel s1 where g: "generate_pairs C E s = Inr (sel, s1)"
      and s': "s' = s1\<lparr>selected_pair := sel, regenerate_time := time d + timedelta_days 5\<rparr>"
      by (auto simp add: regenerate_def split: sum.splits)
    from generate_pairs_frame [OF g] s' show ?thesis by simp
  next
    case False
    with assms show ?thesis by (simp add: regenerate_def)
  qed
  then show "trading_pairs s' = trading_pairs s"
    and "events s' = events s \<or> events s' = events s @ [Debug No_selected_pair]"
    by simp_all
qed

lemma on_data_split:
  assumes "on_data C E d s = Inr s'"
  obtains s2 where "regenerate C E d (fold (update_step E d) (symbol_keys s) s) = Inr s2"
    and "trade C E (loop_symbol (symbol_keys s)) s2 = Inr s'"
    and "trading_pairs s2 = trading_pairs s"
  using assms regenerate_frame(1)
  by (fastforce simp add: on_data_def Let_def split: sum.splits)

lemma on_data_distinct:
  assumes "on_data C E d s = Inr s'" and "distinct (map fst (trading_pairs s))"
  shows "distinct (map fst (trading_pairs s'))"
proof -
  from assms(1) obtain s2 where t: "trade C E (loop_symbol (symbol_keys s)) s2 = Inr s'"
    and tp: "trading_pairs s2 = trading_pairs s"
    by (rule on_data_split)
  from trade_result [OF t] assms(2) tp show ?thesis by auto
qed

lemma on_data_keys_selected:
  assumes "on_data C E d s = Inr s'"
  shows "fst ` set (trading_pairs s') \<subseteq> set (selected_pair s')"
proof -
  from assms obtain s2 where t: "trade C E (loop_symbol (symbol_keys s)) s2 = Inr s'"
    by (rule on_data_split)
  from trade_keys_selected [OF t] show ?thesis .
qed

lemma run_distinct:
  assumes "run C E s ds = Inr s'" and "distinct (map fst (trading_pairs s))"
  shows "distinct (map fst (trading_pairs s'))"
  using assms
proof (induction ds arbitrary: s)
  case Nil
  then show ?case by simp
next
  case (Cons d ds)
  then obtain s1 where "on_data C E d s = Inr s1" "run C E s1 ds = Inr s'"
    by (auto split: sum.splits)
  with Cons.IH on_data_distinct Cons.prems(2) show ?case by blast
qed

lemma initialize_flat: "trading_pairs (initialize C mk is_ready) = []"
  by (simp add: initialize_def Let_def)

subsection \<open>Counting the closes of a pair\<close>

lemma count_closing_events:
  assumes "distinct (map fst al)"
    and "\<forall>q\<in>fst ` set al. q \<noteq> p \<longrightarrow> name (pair_store s q) \<noteq> name (pair_store s p)"
  shows "count_list (concat (map (\<lambda>ptp. if P ptp then closing_events s ptp else []) al))
           (Debug (Close (name (pair_store s p))))
         = (case map_of al p of None \<Rightarrow> 0 | Some tp \<Rightarrow> if P (p, tp) then 1 else 0)"
  using assms
proof (induction al)
  case Nil
  show ?case by simp
next
  case (Cons kv al)
  obtain k v where kv: "kv = (k, v)" by (cases kv)
  from Cons.prems have d: "distinct (map fst al)" and k: "k \<notin> fst ` set al"
    and n: "\<forall>q\<in>fst ` set al. q \<noteq> p \<longrightarrow> name (pair_store s q) \<noteq> name (pair_store s p)"
    by (auto simp add: kv)
  note ih = Cons.IH [OF d n]
  show ?case
  proof (cases "k = p")
    case True
    with k have "map_of al p = None" by (simp add: map_of_eq_None_iff)
    with ih True show ?thesis by (simp add: kv closing_events_def)
  next
    case False
    with Cons.prems(2) have "name (pair_store s k) \<noteq> name (pair_store s p)"
      by (simp add: kv)
    with ih False show ?thesis by (simp add: kv closing_events_def)
  qed
qed

lemma new_events_append [simp]: "events s' = events s @ new \<Longrightarrow> new_events s s' = new"
  by (simp add: new_events_def)

lemma trade_close_count:
  assumes "distinct (map fst (trading_pairs s))"
    and "\<forall>q\<in>fst ` set (trading_pairs s). q \<noteq> p \<longrightarrow>
           name (pair_store s q) \<noteq> name (pair_store s p)"
    and "trade C E smb s = Inr s'"
  shows "count_list (new_events s s') (Debug (Close (name (pair_store s p))))
         = (case map_of (trading_pairs s) p of
              None \<Rightarrow> 0
            | Some tp \<Rightarrow> if closes C E s (p, tp) then 1 else 0)"
proof -
  from trade_result [OF assms(3)] obtain new where
    e: "events s' = events s @
          concat (map (\<lambda>ptp. if closes C E s ptp then closing_events s ptp else [])
                    (trading_pairs s)) @ new"
    and n: "\<forall>nm. Debug (Close nm) \<notin> set new"
    by blast
  from n have "count_list new (Debug (Close (name (pair_store s p)))) = 0"
    by (simp add: count_list_0_iff)
  with new_events_append [OF e] count_closing_events [OF assms(1,2), of "closes C E s"]
  show ?thesis by simp
qed

lemma trade_closed_position:
  assumes "distinct (map fst (trading_pairs s))"
    and "(p, tp) \<in> set (trading_pairs s)" and "closes C E s (p, tp)"
    and "trade C E smb s = Inr s'"
  shows "\<exists>pre post. new_events s s' = pre @ closing_events s (p, tp) @ post"
proof -
  from trade_result [OF assms(4)] obtain new where
    e: "events s' = events s @
          concat (map (\<lambda>ptp. if closes C E s ptp then closing_events s ptp else [])
                    (trading_pairs s)) @ new"
    by blast
  from assms(2) obtain xs ys where al: "trading_pairs s = xs @ (p, tp) # ys"
    by (auto dest: split_list)
  let ?f = "\<lambda>ptp. if closes C E s ptp then closing_events s ptp else []"
  have "new_events s s' = concat (map ?f xs) @ closing_events s (p, tp) @ (concat (map ?f ys) @ new)"
    using new_events_append [OF e] assms(3) by (simp add: al)
  then show ?thesis by blast
qed

text \<open>
  Claim C1. The dict of open positions never holds two positions of one pair: after every
  run from the initial state its keys are distinct, and each loop body keeps them distinct,
  so this holds at every point within an update as well. An entry fires only for a pair
  that has no position at that moment, and then adds exactly one position, for that pair;
  for a pair that has a position the entry step changes nothing.
\<close>

theorem at_most_one_open_position:
  "(run C E (initialize C mk is_ready) ds = Inr s_end \<longrightarrow>
      distinct (map fst (trading_pairs s_end)))
   \<and> (distinct (map fst (trading_pairs s)) \<longrightarrow>
        distinct (map fst (trading_pairs (close_step C E ptp s))))
   \<and> (distinct (map fst (trading_pairs s)) \<and> entry_step C E smb p s = Inr s' \<longrightarrow>
        distinct (map fst (trading_pairs s')))
   \<and> (entry_step C E smb p s = Inr s' \<and> s' \<noteq> s \<longrightarrow>
        p \<notin> fst ` set (trading_pairs s)
        \<and> map fst (trading_pairs s') = map fst (trading_pairs s) @ [p])
   \<and> (p \<in> fst ` set (trading_pairs s) \<and> entry_step C E smb p s = Inr s' \<longrightarrow> s' = s)"
proof (intro conjI impI)
  assume "run C E (initialize C mk is_ready) ds = Inr s_end"
  from run_distinct [OF this] show "distinct (map fst (trading_pairs s_end))"
    by (simp add: initialize_flat)
next
  assume "distinct (map fst (trading_pairs s))"
  then show "distinct (map fst (trading_pairs (close_step C E ptp s)))"
    by (simp add: close_step_eq AList.distinct_delete)
next
  assume a: "distinct (map fst (trading_pairs s)) \<and> entry_step C E smb p s = Inr s'"
  with entry_step_result [of C E smb p s s']
  show "distinct (map fst (trading_pairs s'))" by auto
next
  assume a: "entry_step C E smb p s = Inr s' \<and> s' \<noteq> s"
  with entry_step_result [of C E smb p s s']
  show "p \<notin> fst ` set (trading_pairs s)"
    and "map fst (trading_pairs s') = map fst (trading_pairs s) @ [p]"
    by auto
next
  assume a: "p \<in> fst ` set (trading_pairs s) \<and> entry_step C E smb p s = Inr s'"
  with entry_step_result [of C E smb p s s'] show "s' = s" by blast
qed

text \<open>
  The theorem at the instance: the run that opens the short position ends with the one
  key 0; the entry step leaves the state with that position as it is, and from the flat
  state it adds the key 0.
\<close>

theorem at_most_one_open_position_witness:
  "(\<exists>s. run example_config example_env example_initial [example_bars 1 2.5] = Inr s
        \<and> distinct (map fst (trading_pairs s)) \<and> map fst (trading_pairs s) = [0])
   \<and> distinct (map fst (trading_pairs
          (close_step example_config example_env (0, example_position (- 50))
             (example_state example_pair 2.5 [(0, example_position (- 50))]))))
   \<and> entry_step example_config example_env (Some ''B'') 0
        (example_state example_pair 2.5 [(0, example_position (- 50))])
      = Inr (example_state example_pair 2.5 [(0, example_position (- 50))])
   \<and> (\<exists>s'. entry_step example_config example_env (Some ''B'') 0
                (example_state example_pair 2.5 []) = Inr s'
            \<and> s' \<noteq> example_state example_pair 2.5 []
            \<and> distinct (map fst (trading_pairs s'))
            \<and> map fst (trading_pairs s') = [0])"
proof -
  let ?open = "example_state example_pair 2.5 [(0, example_position (- 50))]"
  let ?flat = "example_state example_pair 2.5 []"
  note t = at_most_one_open_position [where C = example_config and E = example_env
      and mk = "\<lambda>k. 10" and is_ready = "\<lambda>sd. True" and smb = "Some ''B''" and p = 0]
  note t1 = t [THEN conjunct1, rule_format]
    and t2 = t [THEN conjunct2, THEN conjunct1, rule_format]
    and t3 = t [THEN conjunct2, THEN conjunct2, THEN conjunct1, rule_format]
    and t4 = t [THEN conjunct2, THEN conjunct2, THEN conjunct2, THEN conjunct1, rule_format]
    and t5 = t [THEN conjunct2, THEN conjunct2, THEN conjunct2, THEN conjunct2, rule_format]
  have "\<exists>s. run example_config example_env example_initial [example_bars 1 2.5] = Inr s
        \<and> map fst (trading_pairs s) = [0]"
    by (simp add: run_defs ex_defs)
  then obtain s1 where r: "run example_config example_env example_initial [example_bars 1 2.5] = Inr s1"
    and k: "map fst (trading_pairs s1) = [0]" by auto
  from r have "run example_config example_env (initialize example_config (\<lambda>k. 10) (\<lambda>sd. True))
      [example_bars 1 2.5] = Inr s1" by (simp add: example_initial_def)
  from t1 [OF this] have 1: "distinct (map fst (trading_pairs s1))" .
  have A: "\<exists>s. run example_config example_env example_initial [example_bars 1 2.5] = Inr s
        \<and> distinct (map fst (trading_pairs s)) \<and> map fst (trading_pairs s) = [0]"
    using r 1 k by (intro exI [of _ s1]) simp
  have d: "distinct (map fst (trading_pairs ?open))" by (simp add: example_state_def)
  from t2 [OF d]
  have B: "distinct (map fst (trading_pairs
          (close_step example_config example_env (0, example_position (- 50)) ?open)))" .
  have "\<exists>s'. entry_step example_config example_env (Some ''B'') 0 ?open = Inr s'"
    by (simp add: entry_step_def ex_defs)
  then obtain s2 where e2: "entry_step example_config example_env (Some ''B'') 0 ?open = Inr s2"
    by auto
  have "0 \<in> fst ` set (trading_pairs ?open)" by (simp add: example_state_def)
  from t5 [OF conjI [OF this e2]] e2
  have C: "entry_step example_config example_env (Some ''B'') 0 ?open = Inr ?open"
    by simp
  have h1: "0 \<notin> fst ` set (trading_pairs ?flat)" by (simp add: example_state_def)
  have h2: "model (pair_store ?flat 0) = Some \<lparr>params_0 = 0, params_1 = 1, resid = [-1, 1]\<rparr>"
    by (simp add: example_state_def example_pair_def)
  have "\<exists>s'. entry_step example_config example_env (Some ''B'') 0 ?flat = Inr s' \<and> s' \<noteq> ?flat"
    unfolding entry_step_flat [OF h1 h2] by (simp add: Let_def ex_defs)
  then obtain s3 where e3: "entry_step example_config example_env (Some ''B'') 0 ?flat = Inr s3"
    and n3: "s3 \<noteq> ?flat" by auto
  from t4 [OF conjI [OF e3 n3]]
  have 5: "map fst (trading_pairs s3) = [0]" by (simp add: example_state_def)
  have d0: "distinct (map fst (trading_pairs ?flat))" by (simp add: example_state_def)
  from t3 [OF conjI [OF d0 e3]] have 6: "distinct (map fst (trading_pairs s3))" .
  have D: "\<exists>s'. entry_step example_config example_env (Some ''B'') 0 ?flat = Inr s'
            \<and> s' \<noteq> ?flat \<and> distinct (map fst (trading_pairs s'))
            \<and> map fst (trading_pairs s') = [0]"
    using e3 n3 5 6 by (intro exI [of _ s3]) simp
  from A B C D show ?thesis by (intro conjI)
qed

lemma regenerate_same_data:
  assumes "regenerate C E d s = Inr s'"
  shows "same_data s s'"
proof (cases "regenerate_time s < time d")
  case True
  with assms obtain sel s1 where g: "generate_pairs C E s = Inr (sel, s1)"
    and s': "s' = s1\<lparr>selected_pair := sel, regenerate_time := time d + timedelta_days 5\<rparr>"
    by (auto simp add: regenerate_def split: sum.splits)
  from generate_pairs_result(3) [OF g] s' show ?thesis by (simp add: same_data_def)
next
  case False
  with assms show ?thesis by (simp add: regenerate_def)
qed

lemma name_same_data: "same_data s s' \<Longrightarrow> name (pair_store s' q) = name (pair_store s q)"
  by (simp add: same_data_def name_def)

lemma on_data_close_count:
  assumes "distinct (map fst (trading_pairs s))"
    and "\<forall>q\<in>fst ` set (trading_pairs s). q \<noteq> p \<longrightarrow>
           name (pair_store s q) \<noteq> name (pair_store s p)"
    and "on_data C E d s = Inr s'"
  shows "\<exists>s2. regenerate C E d (fold (update_step E d) (symbol_keys s) s) = Inr s2 \<and>
           trade C E (loop_symbol (symbol_keys s)) s2 = Inr s' \<and>
           trading_pairs s2 = trading_pairs s \<and>
           count_list (new_events s s') (Debug (Close (name (pair_store s p))))
             = (case map_of (trading_pairs s) p of
                  None \<Rightarrow> 0
                | Some tp \<Rightarrow> if closes C E s2 (p, tp) then 1 else 0)"
proof -
  let ?s1 = "fold (update_step E d) (symbol_keys s) s"
  from assms(3) obtain s2 where r: "regenerate C E d ?s1 = Inr s2"
    and t: "trade C E (loop_symbol (symbol_keys s)) s2 = Inr s'"
    and tp: "trading_pairs s2 = trading_pairs s"
    by (rule on_data_split)
  from regenerate_same_data [OF r] have nm: "name (pair_store s2 q) = name (pair_store s q)" for q
    using name_same_data [of ?s1 s2 q] by (simp add: name_def)
  have d2: "distinct (map fst (trading_pairs s2))" using assms(1) tp by simp
  have n2: "\<forall>q\<in>fst ` set (trading_pairs s2). q \<noteq> p \<longrightarrow>
           name (pair_store s2 q) \<noteq> name (pair_store s2 p)"
    using assms(2) tp nm by simp
  note c = trade_close_count [OF d2 n2 t]
  from trade_result [OF t] obtain x where x: "events s' = events s2 @ x"
    by blast
  from regenerate_frame(2) [OF r]
  have e2: "events s2 = events s \<or> events s2 = events s @ [Debug No_selected_pair]"
    by simp
  have "count_list (new_events s s') (Debug (Close (name (pair_store s p))))
      = count_list (new_events s2 s') (Debug (Close (name (pair_store s2 p))))"
    using e2 x by (auto simp add: new_events_def nm)
  with c tp r t show ?thesis by (intro exI [of _ s2]) simp
qed

lemma closing_events_same_data:
  "same_data s s' \<Longrightarrow> closing_events s' ptp = closing_events s ptp"
  by (simp add: closing_events_def same_data_def name_def)

lemma on_data_closed_position:
  assumes "distinct (map fst (trading_pairs s))"
    and "(p, tp) \<in> set (trading_pairs s)"
    and "on_data C E d s = Inr s'" and "p \<notin> set (selected_pair s')"
  shows "\<exists>pre post. new_events s s' = pre @ closing_events s (p, tp) @ post"
proof -
  let ?s1 = "fold (update_step E d) (symbol_keys s) s"
  from assms(3) obtain s2 where r: "regenerate C E d ?s1 = Inr s2"
    and t: "trade C E (loop_symbol (symbol_keys s)) s2 = Inr s'"
    and tp: "trading_pairs s2 = trading_pairs s"
    by (rule on_data_split)
  have ce: "closing_events s2 (p, tp) = closing_events s (p, tp)"
    using closing_events_same_data [OF regenerate_same_data [OF r], of "(p, tp)"]
    by (simp add: closing_events_def)
  from assms(4) trade_frame(1) [OF t] have "closes C E s2 (p, tp)"
    by (simp add: closes_def)
  with trade_closed_position [of s2 p tp C E "loop_symbol (symbol_keys s)" s'] assms(1,2) tp t
  obtain pre post where n: "new_events s2 s' = pre @ closing_events s2 (p, tp) @ post"
    by auto
  from trade_result [OF t] obtain x where x: "events s' = events s2 @ x"
    by blast
  with n have nx: "x = pre @ closing_events s2 (p, tp) @ post" by (simp add: new_events_def)
  from regenerate_frame(2) [OF r]
  have "events s2 = events s \<or> events s2 = events s @ [Debug No_selected_pair]"
    by simp
  then show ?thesis
  proof
    assume "events s2 = events s"
    with x nx ce have "new_events s s' = pre @ closing_events s (p, tp) @ post"
      by (simp add: new_events_def)
    then show ?thesis by blast
  next
    assume "events s2 = events s @ [Debug No_selected_pair]"
    with x nx ce
    have "new_events s s' = (Debug No_selected_pair # pre) @ closing_events s (p, tp) @ post"
      by (simp add: new_events_def)
    then show ?thesis by blast
  qed
qed

text \<open>
  Claim C4. A position whose pair is not in the selected list is closed by the first test
  of the closing loop, whatever the prices and the bands, before the exit tests are reached;
  after every update every open position belongs to a selected pair. In an update after
  which the pair \<open>p\<close> is not in the selected list (the keys of the dict being distinct and
  the names of the other pairs with a position differing from that of \<open>p\<close>), the pair has
  no position at the end, the update logs exactly one \<^verbatim>\<open>Close\<close> line for it if it had a
  position and none if it was flat, and the two reversing orders and the \<^verbatim>\<open>Close\<close> line of
  its position are in the log. The selected list changes only at the start of an update,
  so the list at its end is the one that the closing loop and the entry loop have used.
\<close>

theorem forced_close_of_deselected_pair:
  "(p \<notin> set (selected_pair s) \<longrightarrow> close_step C E (p, tp) s = close_position p tp s)
   \<and> (on_data C E d s = Inr s' \<longrightarrow> fst ` set (trading_pairs s') \<subseteq> set (selected_pair s'))
   \<and> (distinct (map fst (trading_pairs s))
       \<and> (\<forall>q\<in>fst ` set (trading_pairs s). q \<noteq> p \<longrightarrow>
             name (pair_store s q) \<noteq> name (pair_store s p))
       \<and> on_data C E d s = Inr s' \<and> p \<notin> set (selected_pair s') \<longrightarrow>
         p \<notin> fst ` set (trading_pairs s')
         \<and> count_list (new_events s s') (Debug (Close (name (pair_store s p))))
             = (if p \<in> fst ` set (trading_pairs s) then 1 else 0)
         \<and> ((p, tp) \<in> set (trading_pairs s) \<longrightarrow>
              (\<exists>pre post. new_events s s' = pre @ closing_events s (p, tp) @ post)))"
proof (intro conjI impI)
  assume "p \<notin> set (selected_pair s)"
  then show "close_step C E (p, tp) s = close_position p tp s"
    by (simp add: close_step_def)
next
  assume "on_data C E d s = Inr s'"
  then show "fst ` set (trading_pairs s') \<subseteq> set (selected_pair s')"
    by (rule on_data_keys_selected)
next
  assume a: "distinct (map fst (trading_pairs s))
       \<and> (\<forall>q\<in>fst ` set (trading_pairs s). q \<noteq> p \<longrightarrow>
             name (pair_store s q) \<noteq> name (pair_store s p))
       \<and> on_data C E d s = Inr s' \<and> p \<notin> set (selected_pair s')"
  then have d: "distinct (map fst (trading_pairs s))"
    and n: "\<forall>q\<in>fst ` set (trading_pairs s). q \<noteq> p \<longrightarrow>
             name (pair_store s q) \<noteq> name (pair_store s p)"
    and od: "on_data C E d s = Inr s'" and ns: "p \<notin> set (selected_pair s')"
    by simp_all
  from on_data_close_count [OF d n od] obtain s2 where
    t: "trade C E (loop_symbol (symbol_keys s)) s2 = Inr s'"
    and c: "count_list (new_events s s') (Debug (Close (name (pair_store s p))))
             = (case map_of (trading_pairs s) p of
                  None \<Rightarrow> 0
                | Some tp \<Rightarrow> if closes C E s2 (p, tp) then 1 else 0)"
    by blast
  from ns trade_frame(1) [OF t] have cl: "closes C E s2 (p, v)" for v
    by (simp add: closes_def)
  show "p \<notin> fst ` set (trading_pairs s')"
    using on_data_keys_selected [OF od] ns by auto
  show "count_list (new_events s s') (Debug (Close (name (pair_store s p))))
             = (if p \<in> fst ` set (trading_pairs s) then 1 else 0)"
  proof (cases "map_of (trading_pairs s) p")
    case None
    then have "p \<notin> fst ` set (trading_pairs s)" by (simp add: map_of_eq_None_iff)
    with c None show ?thesis by simp
  next
    case (Some v)
    then have "p \<in> fst ` set (trading_pairs s)"
      by (metis map_of_eq_None_iff option.distinct(1))
    with c Some cl show ?thesis by simp
  qed
  show "\<exists>pre post. new_events s s' = pre @ closing_events s (p, tp) @ post"
    if "(p, tp) \<in> set (trading_pairs s)"
    using on_data_closed_position [OF d that od ns] .
qed

text \<open>
  The theorem at the instance: the pair holds a short position and is not selected; the
  update sends the two reversing orders and one \<^verbatim>\<open>Close\<close> line and leaves the pair flat,
  and the next update logs no \<^verbatim>\<open>Close\<close> line.
\<close>

theorem forced_close_of_deselected_pair_witness:
  "0 \<notin> set (selected_pair (example_deselected (example_position (- 50))))
   \<and> close_step example_config example_env (0, example_position (- 50))
        (example_deselected (example_position (- 50)))
      = close_position 0 (example_position (- 50)) (example_deselected (example_position (- 50)))
   \<and> distinct (map fst (trading_pairs (example_deselected (example_position (- 50)))))
   \<and> (\<exists>s'. on_data example_config example_env \<lparr>time = 1, bars = Map.empty\<rparr>
               (example_deselected (example_position (- 50))) = Inr s'
          \<and> events s' = [Market_order ''A'' 50, Market_order ''B'' (- 50), Debug (Close ''A:B'')]
          \<and> trading_pairs s' = []
          \<and> fst ` set (trading_pairs s') \<subseteq> set (selected_pair s')
          \<and> count_list (new_events (example_deselected (example_position (- 50))) s')
               (Debug (Close ''A:B'')) = 1
          \<and> (\<exists>s''. on_data example_config example_env \<lparr>time = 2, bars = Map.empty\<rparr> s' = Inr s''
                \<and> trading_pairs s'' = []
                \<and> count_list (new_events s' s'') (Debug (Close ''A:B'')) = 0))"
proof -
  let ?pos = "example_position (- 50)"
  let ?st = "example_deselected ?pos"
  let ?d1 = "\<lparr>time = 1, bars = Map.empty\<rparr> :: real slice"
  let ?d2 = "\<lparr>time = 2, bars = Map.empty\<rparr> :: real slice"
  note t = forced_close_of_deselected_pair [where C = example_config and E = example_env
      and p = 0]
  note t1 = t [THEN conjunct1, rule_format]
    and t2 = t [THEN conjunct2, THEN conjunct1, rule_format]
    and t3 = t [THEN conjunct2, THEN conjunct2, rule_format]
  note st_defs = example_deselected_def ex_defs
  have ns: "0 \<notin> set (selected_pair ?st)" by (simp add: st_defs)
  have d: "distinct (map fst (trading_pairs ?st))" by (simp add: st_defs)
  have nm: "name (pair_store ?st 0) = ''A:B''" by (simp add: st_defs name_def)
  have n: "\<forall>q\<in>fst ` set (trading_pairs ?st). q \<noteq> 0 \<longrightarrow>
             name (pair_store ?st q) \<noteq> name (pair_store ?st 0)"
    by (simp add: st_defs)
  have A: "close_step example_config example_env (0, ?pos) ?st = close_position 0 ?pos ?st"
    by (rule t1 [OF ns])
  have "\<exists>s'. on_data example_config example_env ?d1 ?st = Inr s'
          \<and> events s' = [Market_order ''A'' 50, Market_order ''B'' (- 50), Debug (Close ''A:B'')]
          \<and> trading_pairs s' = [] \<and> selected_pair s' = [] \<and> pair_store s' = pair_store ?st
          \<and> regenerate_time s' = 432001 \<and> symbol_keys s' = [''A'', ''B'']"
    by (simp add: run_defs st_defs)
  then obtain s' where od: "on_data example_config example_env ?d1 ?st = Inr s'"
    and ev: "events s' = [Market_order ''A'' 50, Market_order ''B'' (- 50), Debug (Close ''A:B'')]"
    and tp: "trading_pairs s' = []" and sel: "selected_pair s' = []"
    and ps: "pair_store s' = pair_store ?st" and rt: "regenerate_time s' = 432001"
    and ks: "symbol_keys s' = [''A'', ''B'']"
    by auto
  have ns': "0 \<notin> set (selected_pair s')" by (simp add: sel)
  have k: "0 \<in> fst ` set (trading_pairs ?st)" by (simp add: st_defs)
  from t3 [OF conjI [OF d conjI [OF n conjI [OF od ns']]], of ?pos] k nm
  have c1: "count_list (new_events ?st s') (Debug (Close ''A:B'')) = 1" by simp
  from t2 [OF od] have sub: "fst ` set (trading_pairs s') \<subseteq> set (selected_pair s')" .
  have "\<exists>s''. on_data example_config example_env ?d2 s' = Inr s'' \<and> selected_pair s'' = []"
    by (simp add: on_data_def regenerate_def trade_def close_loop_def update_step_def
        loop_symbol_def tp sel rt ks Let_def)
  then obtain s'' where od2: "on_data example_config example_env ?d2 s' = Inr s''"
    and sel2: "selected_pair s'' = []"
    by auto
  have d2: "distinct (map fst (trading_pairs s'))" by (simp add: tp)
  have n2: "\<forall>q\<in>fst ` set (trading_pairs s'). q \<noteq> 0 \<longrightarrow>
             name (pair_store s' q) \<noteq> name (pair_store s' 0)"
    by (simp add: tp)
  have ns2: "0 \<notin> set (selected_pair s'')" by (simp add: sel2)
  from t3 [OF conjI [OF d2 conjI [OF n2 conjI [OF od2 ns2]]], of ?pos] tp ps nm
  have c2: "count_list (new_events s' s'') (Debug (Close ''A:B'')) = 0"
    by simp
  from t2 [OF od2] sel2 have tp2: "trading_pairs s'' = []" by simp
  have B: "\<exists>s'. on_data example_config example_env ?d1 ?st = Inr s'
          \<and> events s' = [Market_order ''A'' 50, Market_order ''B'' (- 50), Debug (Close ''A:B'')]
          \<and> trading_pairs s' = []
          \<and> fst ` set (trading_pairs s') \<subseteq> set (selected_pair s')
          \<and> count_list (new_events ?st s') (Debug (Close ''A:B'')) = 1
          \<and> (\<exists>s''. on_data example_config example_env ?d2 s' = Inr s''
                \<and> trading_pairs s'' = []
                \<and> count_list (new_events s' s'') (Debug (Close ''A:B'')) = 0)"
    using od ev tp sub c1 od2 tp2 c2
    by (intro exI [of _ s'] conjI exI [of _ s'']) simp_all
  from ns A d B show ?thesis by (intro conjI)
qed




subsection \<open>The positions after an update\<close>

lemma entry_signal_frame:
  assumes "pair_store s' = pair_store s" "symbol_data s' = symbol_data s"
  shows "entry_signal C E s' p = entry_signal C E s p"
  using assms by (simp add: entry_signal_def spread_error_def Let_def split: option.splits)

lemma entry_step_keys:
  assumes "entry_step C E smb q s = Inr s'"
  shows "fst ` set (trading_pairs s') =
         fst ` set (trading_pairs s) \<union> (if entry_signal C E s q then {q} else {})"
proof (cases "q \<in> fst ` set (trading_pairs s)")
  case True
  with entry_step_result [OF assms] have "s' = s" by blast
  with True show ?thesis by auto
next
  case False
  from assms obtain m where m: "model (pair_store s q) = Some m"
    by (auto simp add: entry_step_def Let_def split: option.splits)
  show ?thesis
  proof (cases "entry_signal C E s q")
    case True
    have "smb \<noteq> None"
    proof
      assume "smb = None"
      with assms False m True show False
        by (auto simp add: entry_step_def entry_arguments_def entry_signal_def Let_def
            split: if_splits)
    qed
    then obtain y where smb: "smb = Some y" by auto
    from assms [unfolded smb entry_step_flat [OF False m]] True
    show ?thesis
      by (auto simp add: entry_signal_def spread_error_def m Let_def split: if_splits)
  next
    case no: False
    with assms m have "s' = s"
      by (auto simp add: entry_step_def entry_signal_def Let_def split: if_splits)
    with no show ?thesis by simp
  qed
qed

lemma entry_loop_keys:
  assumes "entry_loop C E smb ps s = Inr s'"
  shows "fst ` set (trading_pairs s') =
         fst ` set (trading_pairs s) \<union> {q \<in> set ps. entry_signal C E s q}"
  using assms
proof (induction ps arbitrary: s)
  case Nil
  then show ?case by simp
next
  case (Cons q ps)
  then obtain s1 where s1: "entry_step C E smb q s = Inr s1"
    and l: "entry_loop C E smb ps s1 = Inr s'"
    by (auto split: sum.splits)
  from entry_step_frame [OF s1] have f: "entry_signal C E s1 = entry_signal C E s"
    by (intro ext entry_signal_frame) simp_all
  from Cons.IH [OF l] entry_step_keys [OF s1] f show ?case by auto
qed

lemma trade_keys:
  assumes "trade C E smb s = Inr s'"
  shows "fst ` set (trading_pairs s') =
         fst ` set (trading_pairs (close_loop C E (trading_pairs s) s))
         \<union> {q \<in> set (selected_pair s). entry_signal C E s q}"
proof -
  let ?s1 = "close_loop C E (trading_pairs s) s"
  from assms have l: "entry_loop C E smb (selected_pair s) ?s1 = Inr s'"
    by (simp add: trade_def)
  have "entry_signal C E ?s1 = entry_signal C E s"
    by (intro ext entry_signal_frame) simp_all
  with entry_loop_keys [OF l] show ?thesis by simp
qed

lemma trade_flat_selected:
  assumes "trade C E smb s = Inr s'" and "p \<in> set (selected_pair s)"
    and "p \<notin> fst ` set (trading_pairs s)"
  shows "(p \<in> fst ` set (trading_pairs s')) = entry_signal C E s p"
proof -
  have "p \<notin> fst ` set (trading_pairs (close_loop C E (trading_pairs s) s))"
    using assms(3) by (auto simp add: close_loop_eq)
  with trade_keys [OF assms(1)] assms(2) show ?thesis by auto
qed

lemma on_data_flat_selected:
  assumes "on_data C E d s = Inr s'" and "p \<in> set (selected_pair s')"
    and "p \<notin> fst ` set (trading_pairs s)"
  shows "(p \<in> fst ` set (trading_pairs s')) = entry_signal C E s' p"
proof -
  from assms(1) obtain s2 where t: "trade C E (loop_symbol (symbol_keys s)) s2 = Inr s'"
    and tp: "trading_pairs s2 = trading_pairs s"
    by (rule on_data_split)
  note f = trade_frame [OF t]
  have "entry_signal C E s' p = entry_signal C E s2 p"
    by (rule entry_signal_frame) (simp_all add: f)
  with trade_flat_selected [OF t, of p] assms(2,3) tp f(1) show ?thesis by simp
qed

subsection \<open>The selected list\<close>

lemma sort_by_correlation_numbers:
  assumes "None \<notin> (\<lambda>p. correlation E s (pair_store s p)) ` set xs"
  shows "sort_by_correlation E s xs =
         sort_key (\<lambda>p. - the (correlation E s (pair_store s p))) xs"
  using assms by (simp add: sort_by_correlation_def Let_def)

lemma generate_pairs_members:
  assumes "generate_pairs C E s = Inr (sel, s')"
  shows "set sel = set (take (pair_num C)
                     (sort_by_correlation E s (filter (survives C E s) (pair_list s))))"
    and "length sel = min (pair_num C)
           (length (sort_by_correlation E s (filter (survives C E s) (pair_list s))))"
  using generate_pairs_result(1) [OF assms] by simp_all

lemmas ranked_defs = three_config_def ranked_env_def ranked_config_def ranked_initial_def
  data_frame_def concat_axis_1_def dropna_def

lemma ranked_selection:
  "map_sum id fst (generate_pairs ranked_config ranked_env ranked_initial) = Inr [2, 1]"
  by (simp add: run_defs ex_defs ranked_defs)

lemma scenario_D_selection:
  "map_sum id fst
     (generate_pairs example_config
        (example_env\<lparr>corr := \<lambda>rows. Some 0.95, coint := \<lambda>xs ys. Inr 0.5\<rparr>) example_initial)
     = Inr []
   \<and> map_sum id fst
       (generate_pairs example_config (example_env\<lparr>corr := \<lambda>rows. Some 0.95\<rparr>) example_initial)
     = Inr [0]"
  by (simp add: run_defs ex_defs)

text \<open>
  Claim C8. A selection cycle that returns a list returns the candidates of
  \<^verbatim>\<open>_pair_list\<close> that pass the three tests of the loop body (the correlation is not below
  the threshold, \<^verbatim>\<open>cointegration_test\<close> is true, \<^verbatim>\<open>stationary_p\<close> is below 0.05), sorted
  by correlation, cut to the first \<open>pair_num\<close> and then ordered by \<^verbatim>\<open>stationary_p\<close>. When no
  candidate that passes has a NaN correlation, the list holds exactly the first \<open>pair_num\<close>
  of them in the stable order of falling correlation: their number is the smaller of
  \<open>pair_num\<close> and the number that pass, and one that passes but is left out has a
  correlation no higher than any selected pair. When the sort rearranges the candidates
  (as it always does without NaN), every selected pair passes the tests, all that pass are
  selected when they are at most \<open>pair_num\<close>, and a pair whose cointegration p-value is at
  least 0.05 is never selected. In the instance, a pair with correlation 0.95 and p-value
  0.5 is left out, and is selected with p-value 0.01; with three pairs that pass and a cap
  of 2, the two of highest correlation are selected.
\<close>

theorem selection_membership:
  assumes "generate_pairs C E s = Inr (sel, s')"
  shows "sel = sort_key (\<lambda>p. the (stationary_p (pair_store s' p)))
               (take (pair_num C)
                  (sort_by_correlation E s (filter (survives C E s) (pair_list s))))
    \<and> length sel \<le> pair_num C
    \<and> (None \<notin> (\<lambda>p. correlation E s (pair_store s p)) ` {p \<in> set (pair_list s). survives C E s p}
         \<longrightarrow>
         set sel = set (take (pair_num C)
                      (sort_key (\<lambda>p. - the (correlation E s (pair_store s p)))
                         (filter (survives C E s) (pair_list s))))
         \<and> length sel = min (pair_num C) (length (filter (survives C E s) (pair_list s)))
         \<and> (\<forall>p q. p \<in> set (pair_list s) \<and> survives C E s p \<and> p \<notin> set sel \<and> q \<in> set sel \<longrightarrow>
               the (correlation E s (pair_store s p)) \<le> the (correlation E s (pair_store s q))))
    \<and> (set (sort_by_correlation E s (filter (survives C E s) (pair_list s)))
          = {p \<in> set (pair_list s). survives C E s p}
        \<and> length (sort_by_correlation E s (filter (survives C E s) (pair_list s)))
          = length (filter (survives C E s) (pair_list s))
         \<longrightarrow>
         set sel \<subseteq> {p \<in> set (pair_list s). survives C E s p}
         \<and> length sel = min (pair_num C) (length (filter (survives C E s) (pair_list s)))
         \<and> (length (filter (survives C E s) (pair_list s)) \<le> pair_num C \<longrightarrow>
              set sel = {p \<in> set (pair_list s). survives C E s p})
         \<and> (\<forall>p pv. coint E (sd_series E (symbol_data s (a_symbol (pair_store s p))))
                            (sd_series E (symbol_data s (b_symbol (pair_store s p)))) = Inr pv
                    \<and> pv \<ge> 0.05 \<longrightarrow> p \<notin> set sel))
    \<and> map_sum id fst
         (generate_pairs example_config
            (example_env\<lparr>corr := \<lambda>rows. Some 0.95, coint := \<lambda>xs ys. Inr 0.5\<rparr>) example_initial)
       = Inr []
    \<and> map_sum id fst
         (generate_pairs example_config (example_env\<lparr>corr := \<lambda>rows. Some 0.95\<rparr>) example_initial)
       = Inr [0]
    \<and> map_sum id fst (generate_pairs ranked_config ranked_env ranked_initial) = Inr [2, 1]"
proof -
  let ?surv = "filter (survives C E s) (pair_list s)"
  let ?c = "\<lambda>p. correlation E s (pair_store s p)"
  let ?k = "\<lambda>p. - the (?c p)"
  let ?xs = "sort_key ?k ?surv"
  let ?ys = "sort_by_correlation E s ?surv"
  note r = generate_pairs_result(1) [OF assms]
  note m = generate_pairs_members [OF assms]
  have 1: "length sel \<le> pair_num C" using m(2) by simp
  have 2: "set sel = set (take (pair_num C) ?xs)
         \<and> length sel = min (pair_num C) (length ?surv)
         \<and> (\<forall>p q. p \<in> set (pair_list s) \<and> survives C E s p \<and> p \<notin> set sel \<and> q \<in> set sel \<longrightarrow>
               the (?c p) \<le> the (?c q))"
    if n: "None \<notin> ?c ` {p \<in> set (pair_list s). survives C E s p}"
  proof -
    from n have "None \<notin> ?c ` set ?surv" by simp
    from sort_by_correlation_numbers [OF this] have e: "?ys = ?xs" .
    have a: "set sel = set (take (pair_num C) ?xs)" using m(1) e by simp
    have b: "length sel = min (pair_num C) (length ?surv)" using m(2) e by simp
    have c: "\<forall>p q. p \<in> set (pair_list s) \<and> survives C E s p \<and> p \<notin> set sel \<and> q \<in> set sel \<longrightarrow>
               the (?c p) \<le> the (?c q)"
    proof (intro allI impI)
      fix p q
      assume h: "p \<in> set (pair_list s) \<and> survives C E s p \<and> p \<notin> set sel \<and> q \<in> set sel"
      have s: "sorted (map ?k ?xs)" by (rule sorted_sort_key)
      from h a have "q \<in> set (take (pair_num C) ?xs)" "p \<in> set ?xs"
        "p \<notin> set (take (pair_num C) ?xs)" by simp_all
      from sorted_take_drop [where k = ?k, OF s this]
      show "the (?c p) \<le> the (?c q)" by simp
    qed
    from a b c show ?thesis by (intro conjI)
  qed
  have 3: "set sel \<subseteq> {p \<in> set (pair_list s). survives C E s p}
         \<and> length sel = min (pair_num C) (length ?surv)
         \<and> (length ?surv \<le> pair_num C \<longrightarrow> set sel = {p \<in> set (pair_list s). survives C E s p})
         \<and> (\<forall>p pv. coint E (sd_series E (symbol_data s (a_symbol (pair_store s p))))
                            (sd_series E (symbol_data s (b_symbol (pair_store s p)))) = Inr pv
                    \<and> pv \<ge> 0.05 \<longrightarrow> p \<notin> set sel)"
    if h: "set ?ys = {p \<in> set (pair_list s). survives C E s p} \<and> length ?ys = length ?surv"
  proof -
    have a: "set sel \<subseteq> {p \<in> set (pair_list s). survives C E s p}"
    proof
      fix p assume "p \<in> set sel"
      with m(1) have "p \<in> set (take (pair_num C) ?ys)" by simp
      then have "p \<in> set ?ys" by (rule in_set_takeD)
      with h show "p \<in> {p \<in> set (pair_list s). survives C E s p}" by simp
    qed
    have b: "length sel = min (pair_num C) (length ?surv)" using m(2) h by simp
    have c: "length ?surv \<le> pair_num C \<longrightarrow> set sel = {p \<in> set (pair_list s). survives C E s p}"
      using m(1) h by simp
    have d: "\<forall>p pv. coint E (sd_series E (symbol_data s (a_symbol (pair_store s p))))
                            (sd_series E (symbol_data s (b_symbol (pair_store s p)))) = Inr pv
                    \<and> pv \<ge> 0.05 \<longrightarrow> p \<notin> set sel"
      using a not_survives_coint [of E s _ _ C] by blast
    from a b c d show ?thesis by (intro conjI)
  qed
  from r 1 2 3 scenario_D_selection ranked_selection show ?thesis by (intro conjI impI) simp_all
qed


text \<open>
  The theorem at the instance with three pairs and a cap of 2: the three pairs pass the
  tests with correlations 0.2, 0.3 and 0.6, none NaN; the cycle returns the pairs at 2 and
  1, and the pair at 0, which is left out, has the lowest correlation.
\<close>

theorem selection_membership_witness:
  "(\<exists>s'. generate_pairs ranked_config ranked_env ranked_initial = Inr ([2, 1], s'))
   \<and> filter (survives ranked_config ranked_env ranked_initial) (pair_list ranked_initial)
       = [0, 1, 2]
   \<and> map (\<lambda>p. correlation ranked_env ranked_initial (pair_store ranked_initial p)) [0, 1, 2]
       = [Some 0.2, Some 0.3, Some 0.6]
   \<and> set [2, 1 :: pid]
       = set (take (pair_num ranked_config)
                (sort_key (\<lambda>p. - the (correlation ranked_env ranked_initial
                                          (pair_store ranked_initial p)))
                   (filter (survives ranked_config ranked_env ranked_initial)
                      (pair_list ranked_initial))))
   \<and> length [2, 1 :: pid] = min (pair_num ranked_config) 3
   \<and> the (correlation ranked_env ranked_initial (pair_store ranked_initial 0))
       \<le> the (correlation ranked_env ranked_initial (pair_store ranked_initial 2))
   \<and> survives ranked_config ranked_env ranked_initial 2
   \<and> survives ranked_config ranked_env ranked_initial 1"
proof -
  let ?c = "\<lambda>p. correlation ranked_env ranked_initial (pair_store ranked_initial p)"
  have "\<exists>s'. generate_pairs ranked_config ranked_env ranked_initial = Inr ([2, 1], s')"
    by (simp add: run_defs ex_defs ranked_defs)
  then obtain s' where g: "generate_pairs ranked_config ranked_env ranked_initial = Inr ([2, 1], s')"
    by blast
  have pl: "pair_list ranked_initial = [0, 1, 2]"
    by (simp add: run_defs ex_defs ranked_defs upt_rec)
  have sv: "filter (survives ranked_config ranked_env ranked_initial) (pair_list ranked_initial)
       = [0, 1, 2]"
    unfolding pl by (simp add: survives_def run_defs ex_defs ranked_defs)
  have co: "map ?c [0, 1, 2] = [Some 0.2, Some 0.3, Some 0.6]"
    by (simp add: run_defs ex_defs ranked_defs)
  have n: "None \<notin> ?c ` {p \<in> set (pair_list ranked_initial).
                           survives ranked_config ranked_env ranked_initial p}"
  proof -
    have "{p \<in> set (pair_list ranked_initial). survives ranked_config ranked_env ranked_initial p}
        = set (filter (survives ranked_config ranked_env ranked_initial) (pair_list ranked_initial))"
      by simp
    also have "\<dots> = set [0, 1, 2]" by (simp only: sv)
    finally have "?c ` {p \<in> set (pair_list ranked_initial).
                           survives ranked_config ranked_env ranked_initial p}
        = set (map ?c [0, 1, 2])" by simp
    then show ?thesis unfolding co by simp
  qed
  note t = selection_membership [OF g, THEN conjunct2, THEN conjunct2, THEN conjunct1,
      rule_format, OF n]
  from t have a: "set [2, 1 :: pid]
       = set (take (pair_num ranked_config)
                (sort_key (\<lambda>p. - the (?c p))
                   (filter (survives ranked_config ranked_env ranked_initial)
                      (pair_list ranked_initial))))"
    by (rule conjunct1)
  from t have "length [2, 1 :: pid] = min (pair_num ranked_config)
      (length (filter (survives ranked_config ranked_env ranked_initial) (pair_list ranked_initial)))"
    by (simp only: conjunct1 conjunct2)
  then have b: "length [2, 1 :: pid] = min (pair_num ranked_config) 3"
    unfolding sv by simp
  have "survives ranked_config ranked_env ranked_initial 0"
    by (simp add: survives_def run_defs ex_defs ranked_defs)
  then have "0 \<in> set (pair_list ranked_initial) \<and> survives ranked_config ranked_env ranked_initial 0
      \<and> 0 \<notin> set [2, 1 :: pid] \<and> 2 \<in> set [2, 1 :: pid]"
    by (simp add: pl)
  with t have c: "the (?c 0) \<le> the (?c 2)" by blast
  let ?surv = "filter (survives ranked_config ranked_env ranked_initial) (pair_list ranked_initial)"
  from n have "None \<notin> ?c ` set ?surv" by simp
  from sort_by_correlation_numbers [OF this]
  have "set (sort_by_correlation ranked_env ranked_initial ?surv)
          = {p \<in> set (pair_list ranked_initial). survives ranked_config ranked_env ranked_initial p}
        \<and> length (sort_by_correlation ranked_env ranked_initial ?surv) = length ?surv"
    by simp
  from selection_membership [OF g, THEN conjunct2, THEN conjunct2, THEN conjunct2,
      THEN conjunct1, rule_format, OF this]
  have "set [2, 1 :: pid] \<subseteq> {p \<in> set (pair_list ranked_initial).
                           survives ranked_config ranked_env ranked_initial p}"
    by (rule conjunct1)
  then have d: "survives ranked_config ranked_env ranked_initial 2"
    "survives ranked_config ranked_env ranked_initial 1"
    by simp_all
  from g sv co a b c d show ?thesis by (intro conjI exI [of _ s'])
qed

text \<open>
  The pair of the two-instrument instance with a NaN correlation and passing p-values:
  \<^verbatim>\<open>nan < 0.9\<close> is false, the loop goes on to the cointegration test and the pair is
  selected, although its correlation is not at least the threshold.
\<close>

theorem nan_correlation_selected_counterexample:
  "map_sum id fst
     (generate_pairs example_config (example_env\<lparr>corr := \<lambda>rows. None\<rparr>) example_initial)
     = Inr [0]
   \<and> correlation (example_env\<lparr>corr := \<lambda>rows. None\<rparr>) example_initial
       (pair_store example_initial 0) = None
   \<and> \<not> float_ge (correlation (example_env\<lparr>corr := \<lambda>rows. None\<rparr>) example_initial
                     (pair_store example_initial 0)) (min_corr_threshold example_config)"
  by (simp add: run_defs ex_defs float_ge_def)

subsection \<open>The direction of an entry\<close>

lemmas three_defs = portfolio_env_def three_config_def three_initial_def three_bars_def

lemma entry_step_direction:
  assumes "p \<notin> fst ` set (trading_pairs s)"
    and "model (pair_store s p) = Some m"
    and "pair_num C \<noteq> 0"
    and "0 < calculate_order_quantity E s y (leverage C / real (pair_num C) / 2)"
    and "calculate_order_quantity E s y (- (leverage C / real (pair_num C) / 2)) < 0"
  shows "spread_error E s (pair_store s p) (params_0 m) (params_1 m)
           < mean_error (pair_store s p) - open_size C * epsilon (pair_store s p) \<longrightarrow>
         (\<exists>s' tp. entry_step C E (Some y) p s = Inr s'
            \<and> trading_pairs s' = trading_pairs s @ [(p, tp)]
            \<and> 0 < quantity (ticket_a tp) \<and> quantity (ticket_b tp) < 0
            \<and> new_events s s' =
                [Market_order (a_symbol (pair_store s p)) (quantity (ticket_a tp)),
                 Market_order (b_symbol (pair_store s p)) (quantity (ticket_b tp)),
                 Debug (Long_and_short (quantity (ticket_a tp)) (a_symbol (pair_store s p))
                          (quantity (ticket_b tp)) (b_symbol (pair_store s p)))])"
    and "\<not> spread_error E s (pair_store s p) (params_0 m) (params_1 m)
             < mean_error (pair_store s p) - open_size C * epsilon (pair_store s p)
         \<and> spread_error E s (pair_store s p) (params_0 m) (params_1 m)
             > mean_error (pair_store s p) + open_size C * epsilon (pair_store s p) \<longrightarrow>
         (\<exists>s' tp. entry_step C E (Some y) p s = Inr s'
            \<and> trading_pairs s' = trading_pairs s @ [(p, tp)]
            \<and> quantity (ticket_a tp) < 0 \<and> 0 < quantity (ticket_b tp)
            \<and> new_events s s' =
                [Market_order (a_symbol (pair_store s p)) (quantity (ticket_a tp)),
                 Market_order (b_symbol (pair_store s p)) (quantity (ticket_b tp)),
                 Debug (Long_and_short (quantity (ticket_b tp)) (b_symbol (pair_store s p))
                          (quantity (ticket_a tp)) (a_symbol (pair_store s p)))])"
proof -
  let ?pr = "pair_store s p"
  let ?t = "leverage C / real (pair_num C) / 2"
  let ?q = "calculate_order_quantity E s y"
  let ?err = "spread_error E s ?pr (params_0 m) (params_1 m)"
  note e = entry_step_flat [OF assms(1,2), of C E y]
  show "?err < mean_error ?pr - open_size C * epsilon ?pr \<longrightarrow>
         (\<exists>s' tp. entry_step C E (Some y) p s = Inr s'
            \<and> trading_pairs s' = trading_pairs s @ [(p, tp)]
            \<and> 0 < quantity (ticket_a tp) \<and> quantity (ticket_b tp) < 0
            \<and> new_events s s' =
                [Market_order (a_symbol ?pr) (quantity (ticket_a tp)),
                 Market_order (b_symbol ?pr) (quantity (ticket_b tp)),
                 Debug (Long_and_short (quantity (ticket_a tp)) (a_symbol ?pr)
                          (quantity (ticket_b tp)) (b_symbol ?pr))])"
  proof
    assume l: "?err < mean_error ?pr - open_size C * epsilon ?pr"
    let ?tp = "TradingPair \<lparr>ticket_symbol = a_symbol ?pr, quantity = ?q ?t\<rparr>
                 \<lparr>ticket_symbol = b_symbol ?pr, quantity = ?q (- ?t)\<rparr>
                 (params_0 m) (params_1 m) (mean_error ?pr) (epsilon ?pr)"
    let ?s' = "s\<lparr>trading_pairs := trading_pairs s @ [(p, ?tp)],
                events := events s @
                  [Market_order (a_symbol ?pr) (?q ?t), Market_order (b_symbol ?pr) (?q (- ?t)),
                   Debug (Long_and_short (?q ?t) (a_symbol ?pr) (?q (- ?t)) (b_symbol ?pr))]\<rparr>"
    from l assms(3) have "entry_step C E (Some y) p s = Inr ?s'"
      unfolding e by (simp add: Let_def spread_error_def)
    with assms(4,5) show "\<exists>s' tp. entry_step C E (Some y) p s = Inr s'
            \<and> trading_pairs s' = trading_pairs s @ [(p, tp)]
            \<and> 0 < quantity (ticket_a tp) \<and> quantity (ticket_b tp) < 0
            \<and> new_events s s' =
                [Market_order (a_symbol ?pr) (quantity (ticket_a tp)),
                 Market_order (b_symbol ?pr) (quantity (ticket_b tp)),
                 Debug (Long_and_short (quantity (ticket_a tp)) (a_symbol ?pr)
                          (quantity (ticket_b tp)) (b_symbol ?pr))]"
      by (intro exI [of _ ?s'] exI [of _ ?tp]) (simp add: TradingPair_def new_events_def)
  qed
  show "\<not> ?err < mean_error ?pr - open_size C * epsilon ?pr
        \<and> ?err > mean_error ?pr + open_size C * epsilon ?pr \<longrightarrow>
         (\<exists>s' tp. entry_step C E (Some y) p s = Inr s'
            \<and> trading_pairs s' = trading_pairs s @ [(p, tp)]
            \<and> quantity (ticket_a tp) < 0 \<and> 0 < quantity (ticket_b tp)
            \<and> new_events s s' =
                [Market_order (a_symbol ?pr) (quantity (ticket_a tp)),
                 Market_order (b_symbol ?pr) (quantity (ticket_b tp)),
                 Debug (Long_and_short (quantity (ticket_b tp)) (b_symbol ?pr)
                          (quantity (ticket_a tp)) (a_symbol ?pr))])"
  proof
    assume u: "\<not> ?err < mean_error ?pr - open_size C * epsilon ?pr
        \<and> ?err > mean_error ?pr + open_size C * epsilon ?pr"
    let ?tp = "TradingPair \<lparr>ticket_symbol = a_symbol ?pr, quantity = ?q (- ?t)\<rparr>
                 \<lparr>ticket_symbol = b_symbol ?pr, quantity = ?q ?t\<rparr>
                 (params_0 m) (params_1 m) (mean_error ?pr) (epsilon ?pr)"
    let ?s' = "s\<lparr>trading_pairs := trading_pairs s @ [(p, ?tp)],
                events := events s @
                  [Market_order (a_symbol ?pr) (?q (- ?t)), Market_order (b_symbol ?pr) (?q ?t),
                   Debug (Long_and_short (?q ?t) (b_symbol ?pr) (?q (- ?t)) (a_symbol ?pr))]\<rparr>"
    from u assms(3) have "entry_step C E (Some y) p s = Inr ?s'"
      unfolding e by (simp add: Let_def spread_error_def)
    with assms(4,5) show "\<exists>s' tp. entry_step C E (Some y) p s = Inr s'
            \<and> trading_pairs s' = trading_pairs s @ [(p, tp)]
            \<and> quantity (ticket_a tp) < 0 \<and> 0 < quantity (ticket_b tp)
            \<and> new_events s s' =
                [Market_order (a_symbol ?pr) (quantity (ticket_a tp)),
                 Market_order (b_symbol ?pr) (quantity (ticket_b tp)),
                 Debug (Long_and_short (quantity (ticket_b tp)) (b_symbol ?pr)
                          (quantity (ticket_a tp)) (a_symbol ?pr))]"
      by (intro exI [of _ ?s'] exI [of _ ?tp]) (simp add: TradingPair_def new_events_def)
  qed
qed


text \<open>
  Claim C3. For a pair without an open position the loop over the selected pairs decides
  from the live model of the pair: with \<open>err = priceA - (params[0] + params[1] * priceB)\<close>
  it takes the long branch (positive target for A, negative for B) iff
  \<open>err < mean_error - open_size * epsilon\<close>, the short branch (negative target for A,
  positive for B) iff \<open>err > mean_error + open_size * epsilon\<close>, and does nothing
  otherwise; a branch sends the two orders and records the position with a copy of the
  model (and raises \<^verbatim>\<open>ZeroDivisionError\<close> when \<open>pair_num\<close> is 0). The quantities of the
  orders are those that \<^verbatim>\<open>calculate_order_quantity\<close> returns for the two targets: when it
  returns a positive quantity for the positive target and a negative one for the negative
  target, the long branch buys A and sells B and records a position with a positive
  quantity on leg A, which the closing loop reads as a long spread, and the short branch
  sells A and buys B and records a negative quantity on leg A. Over a whole update:
  a pair of the selected list that had no position before the update has one after it
  iff its error lies outside the entry band. In the instance (\<open>mean_error = 0\<close>,
  \<open>epsilon = 1\<close>, \<open>open_size = 2.32\<close>) the errors 0, 1, 2.5 give no event after the
  first and the second update, and the third update sells A and buys B.
\<close>

theorem entry_uses_live_model:
  assumes "p \<notin> fst ` set (trading_pairs s)"
    and "model (pair_store s p) = Some m"
  shows "entry_step C E (Some y) p s =
     (let pr = pair_store s p;
          err = prices_0_close E (symbol_data s (a_symbol pr))
                  - (params_0 m + params_1 m * prices_0_close E (symbol_data s (b_symbol pr)));
          target = leverage C / real (pair_num C) / 2;
          enter = (\<lambda>ta tb msg.
            if pair_num C = 0 then Inl ZeroDivisionError
            else
            Inr (s\<lparr>trading_pairs := trading_pairs s @
                      [(p, TradingPair
                             \<lparr>ticket_symbol = a_symbol pr,
                                quantity = calculate_order_quantity E s y ta\<rparr>
                             \<lparr>ticket_symbol = b_symbol pr,
                                quantity = calculate_order_quantity E s y tb\<rparr>
                             (params_0 m) (params_1 m) (mean_error pr) (epsilon pr))],
                    events := events s @
                      [Market_order (a_symbol pr) (calculate_order_quantity E s y ta),
                       Market_order (b_symbol pr) (calculate_order_quantity E s y tb),
                       Debug msg]\<rparr>))
      in if err < mean_error pr - open_size C * epsilon pr then
           enter target (- target)
             (Long_and_short (calculate_order_quantity E s y target) (a_symbol pr)
                (calculate_order_quantity E s y (- target)) (b_symbol pr))
         else if err > mean_error pr + open_size C * epsilon pr then
           enter (- target) target
             (Long_and_short (calculate_order_quantity E s y target) (b_symbol pr)
                (calculate_order_quantity E s y (- target)) (a_symbol pr))
         else Inr s)
   \<and> (pair_num C \<noteq> 0
        \<and> 0 < calculate_order_quantity E s y (leverage C / real (pair_num C) / 2)
        \<and> calculate_order_quantity E s y (- (leverage C / real (pair_num C) / 2)) < 0 \<longrightarrow>
       (spread_error E s (pair_store s p) (params_0 m) (params_1 m)
          < mean_error (pair_store s p) - open_size C * epsilon (pair_store s p) \<longrightarrow>
        (\<exists>s' tp. entry_step C E (Some y) p s = Inr s'
            \<and> trading_pairs s' = trading_pairs s @ [(p, tp)]
            \<and> 0 < quantity (ticket_a tp) \<and> quantity (ticket_b tp) < 0
            \<and> new_events s s' =
                [Market_order (a_symbol (pair_store s p)) (quantity (ticket_a tp)),
                 Market_order (b_symbol (pair_store s p)) (quantity (ticket_b tp)),
                 Debug (Long_and_short (quantity (ticket_a tp)) (a_symbol (pair_store s p))
                          (quantity (ticket_b tp)) (b_symbol (pair_store s p)))]))
       \<and> (\<not> spread_error E s (pair_store s p) (params_0 m) (params_1 m)
              < mean_error (pair_store s p) - open_size C * epsilon (pair_store s p)
          \<and> spread_error E s (pair_store s p) (params_0 m) (params_1 m)
              > mean_error (pair_store s p) + open_size C * epsilon (pair_store s p) \<longrightarrow>
        (\<exists>s' tp. entry_step C E (Some y) p s = Inr s'
            \<and> trading_pairs s' = trading_pairs s @ [(p, tp)]
            \<and> quantity (ticket_a tp) < 0 \<and> 0 < quantity (ticket_b tp)
            \<and> new_events s s' =
                [Market_order (a_symbol (pair_store s p)) (quantity (ticket_a tp)),
                 Market_order (b_symbol (pair_store s p)) (quantity (ticket_b tp)),
                 Debug (Long_and_short (quantity (ticket_b tp)) (b_symbol (pair_store s p))
                          (quantity (ticket_a tp)) (a_symbol (pair_store s p)))])))
   \<and> (on_data C E d s0 = Inr s1 \<and> q \<in> set (selected_pair s1)
        \<and> q \<notin> fst ` set (trading_pairs s0) \<longrightarrow>
       (q \<in> fst ` set (trading_pairs s1)) = entry_signal C E s1 q)
   \<and> outcome (run example_config example_env example_initial [example_bars 1 0]) = Inr ([], [])
   \<and> outcome (run example_config example_env example_initial
                 [example_bars 1 0, example_bars 2 1]) = Inr ([], [])
   \<and> outcome (run example_config example_env example_initial
                 [example_bars 1 0, example_bars 2 1, example_bars 3 2.5])
       = Inr ([Market_order ''A'' (- 50), Market_order ''B'' 50,
               Debug (Long_and_short 50 ''B'' (- 50) ''A'')],
              [(0, TradingPair \<lparr>ticket_symbol = ''A'', quantity = - 50\<rparr>
                               \<lparr>ticket_symbol = ''B'', quantity = 50\<rparr> 0 1 0 1)])"
proof (intro conjI impI)
  show "on_data C E d s0 = Inr s1 \<and> q \<in> set (selected_pair s1)
        \<and> q \<notin> fst ` set (trading_pairs s0) \<Longrightarrow>
       (q \<in> fst ` set (trading_pairs s1)) = entry_signal C E s1 q"
    using on_data_flat_selected [of C E d s0 s1 q] by simp
qed (use entry_step_flat [OF assms, of C E y] scenario_A_run
      entry_step_direction [OF assms, of C E y] in simp_all)


text \<open>
  The theorem at the instance: the pair is flat and fitted, the error is 2.5, the quantity
  for the target 0.05 is 50 and that for -0.05 is -50, and the step opens the short
  position, selling A and buying B; so does the update that brings A to 12.5.
\<close>

theorem entry_uses_live_model_witness:
  "0 \<notin> fst ` set (trading_pairs (example_state example_pair 2.5 []))
   \<and> model (pair_store (example_state example_pair 2.5 []) 0)
       = Some \<lparr>params_0 = 0, params_1 = 1, resid = [-1, 1]\<rparr>
   \<and> outcome (entry_step example_config example_env (Some ''B'') 0
                 (example_state example_pair 2.5 []))
       = Inr ([Market_order ''A'' (- 50), Market_order ''B'' 50,
               Debug (Long_and_short 50 ''B'' (- 50) ''A'')],
              [(0, TradingPair \<lparr>ticket_symbol = ''A'', quantity = - 50\<rparr>
                               \<lparr>ticket_symbol = ''B'', quantity = 50\<rparr> 0 1 0 1)])
   \<and> (\<exists>s' tp. entry_step example_config example_env (Some ''B'') 0
                  (example_state example_pair 2.5 []) = Inr s'
          \<and> trading_pairs s' = [(0, tp)]
          \<and> quantity (ticket_a tp) < 0 \<and> 0 < quantity (ticket_b tp))
   \<and> (\<exists>s1. on_data example_config example_env \<lparr>time = 1, bars = [''A'' \<mapsto> 12.5]\<rparr>
               (example_state example_pair 0 []) = Inr s1
          \<and> 0 \<in> set (selected_pair s1)
          \<and> 0 \<in> fst ` set (trading_pairs s1)
          \<and> entry_signal example_config example_env s1 0)"
proof -
  let ?d = "\<lparr>time = 1, bars = [''A'' \<mapsto> 12.5]\<rparr> :: real slice"
  let ?s = "example_state example_pair 2.5 []"
  have h1: "0 \<notin> fst ` set (trading_pairs ?s)"
    by (simp add: example_state_def)
  have h2: "model (pair_store ?s 0) = Some \<lparr>params_0 = 0, params_1 = 1, resid = [-1, 1]\<rparr>"
    by (simp add: example_state_def example_pair_def)
  note t = entry_uses_live_model [OF h1 h2, of example_config example_env "''B''"]
  from t [THEN conjunct1]
  have A: "outcome (entry_step example_config example_env (Some ''B'') 0 ?s)
       = Inr ([Market_order ''A'' (- 50), Market_order ''B'' 50,
               Debug (Long_and_short 50 ''B'' (- 50) ''A'')],
              [(0, TradingPair \<lparr>ticket_symbol = ''A'', quantity = - 50\<rparr>
                               \<lparr>ticket_symbol = ''B'', quantity = 50\<rparr> 0 1 0 1)])"
    by (simp add: outcome_def Let_def ex_defs)
  have q: "pair_num example_config \<noteq> 0
        \<and> 0 < calculate_order_quantity example_env ?s ''B''
                (leverage example_config / real (pair_num example_config) / 2)
        \<and> calculate_order_quantity example_env ?s ''B''
                (- (leverage example_config / real (pair_num example_config) / 2)) < 0"
    by (simp add: ex_defs)
  have e: "\<not> spread_error example_env ?s (pair_store ?s 0) 0 1
              < mean_error (pair_store ?s 0) - open_size example_config * epsilon (pair_store ?s 0)
          \<and> spread_error example_env ?s (pair_store ?s 0) 0 1
              > mean_error (pair_store ?s 0) + open_size example_config * epsilon (pair_store ?s 0)"
    by (simp add: spread_error_def ex_defs)
  from t [THEN conjunct2, THEN conjunct1, rule_format, OF q, THEN conjunct2, rule_format] e
  obtain s' tp where
    D0: "entry_step example_config example_env (Some ''B'') 0 ?s = Inr s'"
      "trading_pairs s' = trading_pairs ?s @ [(0, tp)]"
      "quantity (ticket_a tp) < 0" "0 < quantity (ticket_b tp)"
    by auto
  then have D: "\<exists>s' tp. entry_step example_config example_env (Some ''B'') 0 ?s = Inr s'
          \<and> trading_pairs s' = [(0, tp)]
          \<and> quantity (ticket_a tp) < 0 \<and> 0 < quantity (ticket_b tp)"
    by (intro exI [of _ s'] exI [of _ tp]) (simp add: example_state_def)
  have "\<exists>s1. on_data example_config example_env ?d (example_state example_pair 0 []) = Inr s1
          \<and> 0 \<in> set (selected_pair s1) \<and> 0 \<in> fst ` set (trading_pairs s1)"
    by (simp add: run_defs ex_defs)
  then obtain s1 where od: "on_data example_config example_env ?d
        (example_state example_pair 0 []) = Inr s1"
    and sel: "0 \<in> set (selected_pair s1)" and k: "0 \<in> fst ` set (trading_pairs s1)"
    by auto
  have f: "0 \<notin> fst ` set (trading_pairs (example_state example_pair 0 []))"
    by (simp add: example_state_def)
  from t [THEN conjunct2, THEN conjunct2, THEN conjunct1, rule_format,
      OF conjI [OF od conjI [OF sel f]]] k
  have "entry_signal example_config example_env s1 0" by simp
  with od sel k
  have B: "\<exists>s1. on_data example_config example_env ?d (example_state example_pair 0 []) = Inr s1
          \<and> 0 \<in> set (selected_pair s1)
          \<and> 0 \<in> fst ` set (trading_pairs s1)
          \<and> entry_signal example_config example_env s1 0"
    by (intro exI [of _ s1]) simp
  from h1 h2 A D B show ?thesis by (intro conjI)
qed

text \<open>
  The three-instrument instance, where \<^verbatim>\<open>calculate_order_quantity\<close> brings the holding of
  the instrument it is asked about to the target. One update puts A at 13, B at 7 and C at
  10. The pairs (A, B) and (A, C), with errors 6 and 3, enter short; the second entry buys
  50 C. The pair (B, C) is flat and selected, its live model is the line \<open>0 + 1 * C\<close> with
  \<open>mean_error = 0\<close> and \<open>epsilon = 1\<close>, and its error is \<open>-3 < -2.32\<close>: the long
  branch asks for the quantities that bring the holding of C, the instrument that the
  first loop of \<^verbatim>\<open>on_data\<close> ended on, to the targets 0.05 and -0.05, which are 0 and -100.
  It sends an order of 0 for its leg A, the instrument B, and records the position with
  quantity 0 on leg A: the long entry does not buy A.
\<close>

theorem long_entry_without_buy_counterexample:
  "(a_symbol (pair_store three_initial 2), b_symbol (pair_store three_initial 2)) = (''B'', ''C'')
   \<and> map_sum id (\<lambda>s. (2 \<in> set (selected_pair s),
                       spread_error portfolio_env s (pair_store s 2) 0 1,
                       model (pair_store s 2),
                       mean_error (pair_store s 2), epsilon (pair_store s 2)))
         (run three_config portfolio_env three_initial [three_bars 1 13 7 10])
     = Inr (True, - 3, Some \<lparr>params_0 = 0, params_1 = 1, resid = [-1, 1]\<rparr>, 0, 1)
   \<and> outcome (run three_config portfolio_env three_initial [three_bars 1 13 7 10])
     = Inr ([Market_order ''A'' (- 50), Market_order ''B'' 50,
             Debug (Long_and_short 50 ''B'' (- 50) ''A''),
             Market_order ''A'' (- 50), Market_order ''C'' 50,
             Debug (Long_and_short 50 ''C'' (- 50) ''A''),
             Market_order ''B'' 0, Market_order ''C'' (- 100),
             Debug (Long_and_short 0 ''B'' (- 100) ''C'')],
            [(0, TradingPair \<lparr>ticket_symbol = ''A'', quantity = - 50\<rparr>
                             \<lparr>ticket_symbol = ''B'', quantity = 50\<rparr> 0 1 0 1),
             (1, TradingPair \<lparr>ticket_symbol = ''A'', quantity = - 50\<rparr>
                             \<lparr>ticket_symbol = ''C'', quantity = 50\<rparr> 0 1 0 1),
             (2, TradingPair \<lparr>ticket_symbol = ''B'', quantity = 0\<rparr>
                             \<lparr>ticket_symbol = ''C'', quantity = - 100\<rparr> 0 1 0 1)])"
  by (simp add: run_defs ex_defs three_defs)

subsection \<open>The snapshot of a position\<close>













end
